theory Spec2Isabelle
  imports Complex_Main "HOL-Library.Multiset"
begin

section \<open>Evaluation, pose refinement and mesh export (render.py)\<close>

text \<open>
  A shallow embedding of \<^verbatim>\<open>render.py\<close>. Floating-point scalars and tensor
  elements are modelled as real numbers (the script expects every loss to be a finite
  scalar); a tensor is the list of its elements, an image a list of channels, each a list
  of rows. Python exceptions are values of \<open>error\<close>.
\<close>

subsection \<open>Errors and command-line arguments\<close>

datatype error = UnboundLocalError string | ZeroDivisionError | FileNotFoundError string

text \<open>
  The fields of \<^verbatim>\<open>ModelParams\<close> that the script reads. \<^verbatim>\<open>model.extract(args)\<close>
  selects them from the parsed arguments, so the arguments extend this record.
\<close>

record model_params =
  model_path :: string
  eval :: bool
  white_background :: bool

text \<open>The flags declared by the argument parser at the end of the script.\<close>

record args = model_params +
  n_views :: int
  surf :: bool
  iterations :: int
  skip_train :: bool
  skip_test :: bool
  optim_test_pose_iter :: int
  infer_video :: bool
  skip_mesh :: bool
  render_path :: bool
  voxel_size :: real
  depth_trunc :: real
  sdf_trunc :: real
  num_cluster :: int
  unbounded :: bool
  mesh_res :: int
  test_fps :: bool

text \<open>
  The values the parser gives when no flag is passed; the model path and the number of
  views, which \<^verbatim>\<open>ModelParams\<close> declares, are chosen.
\<close>

definition default_args :: args where
  "default_args = \<lparr> model_path = ''out'', eval = False, white_background = False, n_views = 3,
     surf = False, iterations = - 1, skip_train = False,
     skip_test = False, optim_test_pose_iter = 500, infer_video = False, skip_mesh = False,
     render_path = False, voxel_size = - 1.0, depth_trunc = - 1.0, sdf_trunc = - 1.0,
     num_cluster = 50, unbounded = False, mesh_res = 1024, test_fps = False \<rparr>"

subsection \<open>Truncation parameters of bounded mesh extraction\<close>

text \<open>
  Lines 337 to 339 of \<^verbatim>\<open>render_sets\<close>. The result is the triple passed to
  \<^verbatim>\<open>extract_mesh_bounded\<close> as \<open>(voxel_size, sdf_trunc, depth_trunc)\<close>.
  The quotient is only evaluated when the voxel size flag is negative; Python raises
  \<^verbatim>\<open>ZeroDivisionError\<close> there when \<open>mesh_res\<close> is zero.
\<close>

definition bounded_mesh_params :: "real \<Rightarrow> 'a args_scheme \<Rightarrow> error + (real \<times> real \<times> real)" where
  "bounded_mesh_params radius a =
     (let depth_trunc' = (if depth_trunc a < 0 then radius * 2.0 else depth_trunc a) in
      if voxel_size a < 0 \<and> mesh_res a = 0 then Inl ZeroDivisionError
      else
        let voxel_size' = (if voxel_size a < 0 then depth_trunc' / real_of_int (mesh_res a)
                           else voxel_size a);
            sdf_trunc' = (if sdf_trunc a < 0 then 5.0 * voxel_size' else sdf_trunc a)
        in Inr (voxel_size', sdf_trunc', depth_trunc'))"

subsection \<open>Strings and paths\<close>

text \<open>Decimal rendering of integers, as \<^verbatim>\<open>str.format\<close> produces it.\<close>

fun str_nat :: "nat \<Rightarrow> string" where
  "str_nat n = (if n < 10 then [''0123456789'' ! n]
                else str_nat (n div 10) @ [''0123456789'' ! (n mod 10)])"

declare str_nat.simps [simp del]

definition str_int :: "int \<Rightarrow> string" where
  "str_int i = (if i < 0 then ''-'' @ str_nat (nat (- i)) else str_nat (nat i))"

text \<open>\<^verbatim>\<open>"{0:05d}".format(idx)\<close> for an index produced by \<^verbatim>\<open>enumerate\<close>.\<close>

definition format_05d :: "nat \<Rightarrow> string" where
  "format_05d idx = (let s = str_nat idx in replicate (5 - length s) (CHR ''0'') @ s)"

text \<open>\<^verbatim>\<open>os.path.join\<close> on POSIX: a component that starts with a slash resets the path.\<close>

definition path_join2 :: "string \<Rightarrow> string \<Rightarrow> string" where
  "path_join2 path b =
     (if b \<noteq> [] \<and> hd b = CHR ''/'' then b
      else if path = [] \<or> last path = CHR ''/'' then path @ b
      else path @ ''/'' @ b)"

fun path_join :: "string list \<Rightarrow> string" where
  "path_join [] = []"
| "path_join (a # ps) = foldl path_join2 a ps"

subsection \<open>Tensors, views and the external collaborators\<close>

type_synonym tensor = "real list"
type_synonym image = "real list list list"

text \<open>A camera as the loader delivers it; only the fields the script reads.\<close>

record view =
  image_name :: string
  original_image :: image
  world_view_transform :: "real list list"

text \<open>
  The tensors that carry autograd state: the six parameter tensors of the Gaussian model
  and the two pose tensors created for the view being refined.
\<close>

datatype gaussian_field = Xyz | Features_dc | Features_rest | Opacity | Scaling | Rotation

datatype tensor_id = Gaussian gaussian_field | Camera_tensor_T | Camera_tensor_q

record param =
  data :: tensor
  requires_grad :: bool
  grad :: "tensor option"

type_synonym store = "tensor_id \<Rightarrow> param"

text \<open>
  Functions of other modules and of the libraries, taken as parameters: the renderer
  (its \<^verbatim>\<open>"render"\<close> output, for a view, the Gaussian parameters, the background and a
  camera pose), the pose conversion, the masked loss, the gradient that
  \<^verbatim>\<open>loss.backward()\<close> computes for a tensor from the current values, the Adam update
  of one tensor (the learning rate and the pairs of value and gradient the tensor has
  been stepped with, newest first; the result is the new value), the learning rate of
  cosine annealing (\<open>T_max\<close>, \<open>eta_min\<close>, base rate, current rate, new epoch), and the
  successive readings of \<^verbatim>\<open>perf_counter\<close>. For the orchestrator: the pose array
  stored under a model path and iteration (\<open>None\<close> when the file is absent), the camera
  loader, the radius the mesh extractor estimates from the views it reconstructed, the
  trajectory generator, and the outcome of \<^verbatim>\<open>save_interpolate_pose\<close> (an error, or the
  array it writes), which is not embedded.
\<close>

record env =
  render :: "view \<Rightarrow> (gaussian_field \<Rightarrow> tensor) \<Rightarrow> tensor \<Rightarrow> tensor \<Rightarrow> image"
  get_tensor_from_camera :: "real list list \<Rightarrow> tensor"
  l1_loss_mask :: "image \<Rightarrow> image \<Rightarrow> image \<Rightarrow> real"
  autograd :: "view \<Rightarrow> (tensor_id \<Rightarrow> tensor) \<Rightarrow> tensor_id \<Rightarrow> tensor"
  adam_update :: "real \<Rightarrow> (tensor \<times> tensor) list \<Rightarrow> tensor"
  cosine_annealing_lr :: "int \<Rightarrow> real \<Rightarrow> real \<Rightarrow> real \<Rightarrow> nat \<Rightarrow> real"
  perf_counter :: "nat \<Rightarrow> real"
  np_load :: "string \<Rightarrow> int \<Rightarrow> string \<Rightarrow> real list list list option"
  loadCameras :: "real list list list \<Rightarrow> view list \<Rightarrow> view list"
  extractor_radius :: "view list \<Rightarrow> real"
  generate_path :: "view list \<Rightarrow> nat \<Rightarrow> view list"
  save_interpolate_pose :: "string \<Rightarrow> int \<Rightarrow> int \<Rightarrow> error + real list list list"

subsection \<open>Observable effects\<close>

datatype event =
    Makedirs string
  | Render view tensor
  | Save_image image string
  | Loss_eval real
  | Backward
  | Optimizer_step
  | Scheduler_step
  | Set_postfix real "real option"
  | Print string
  | Json_dump real string
  | Save_time string string
  | Reconstruction_optim "view list" int
  | Reconstruction "view list"
  | Export_image string
  | Set_active_sh_degree nat
  | Extract_mesh_unbounded int
  | Extract_mesh_bounded real real real
  | Write_triangle_mesh string
  | Post_process_mesh int
  | Create_videos string nat
  | Save_interpolate_pose string int int
  | Images_to_video string string

text \<open>
  The mutable world: the tensors, the effects so far in program order, and the number of
  clock readings taken.
\<close>

record world =
  tensors :: store
  events :: "event list"
  clock :: nat

definition emit :: "event list \<Rightarrow> world \<Rightarrow> world" where
  "emit es w = w\<lparr>events := events w @ es\<rparr>"

definition gaussians :: "world \<Rightarrow> gaussian_field \<Rightarrow> tensor" where
  "gaussians w g = data (tensors w (Gaussian g))"

fun saved_images :: "event list \<Rightarrow> (image \<times> string) list" where
  "saved_images [] = []"
| "saved_images (Save_image img p # es) = (img, p) # saved_images es"
| "saved_images (_ # es) = saved_images es"

subsection \<open>Plain evaluation render\<close>

text \<open>The body of the loop of \<^verbatim>\<open>render_set\<close> (lines 101 to 112).\<close>

definition render_set_view ::
  "env \<Rightarrow> string \<Rightarrow> string \<Rightarrow> string \<Rightarrow> tensor \<Rightarrow> nat \<times> view \<Rightarrow> world \<Rightarrow> world" where
  "render_set_view e name render_path' gts_path background iv w =
     (let idx = fst iv; view = snd iv;
          camera_pose = get_tensor_from_camera e (transpose (world_view_transform view));
          rendering = render e view (gaussians w) background camera_pose;
          gt = take 3 (original_image view);
          w1 = emit [Render view camera_pose,
                     Save_image rendering (path_join [render_path', format_05d idx @ ''.png''])] w
      in if name \<noteq> ''interp''
         then emit [Save_image gt (path_join [gts_path, format_05d idx @ ''.png''])] w1
         else w1)"

definition render_set ::
  "env \<Rightarrow> string \<Rightarrow> string \<Rightarrow> int \<Rightarrow> view list \<Rightarrow> tensor \<Rightarrow> world \<Rightarrow> world" where
  "render_set e model_path' name iteration views background w =
     (let render_path' = path_join [model_path', name, ''ours_'' @ str_int iteration, ''renders''];
          gts_path = path_join [model_path', name, ''ours_'' @ str_int iteration, ''gt''];
          w1 = emit [Makedirs render_path', Makedirs gts_path] w
      in fold (render_set_view e name render_path' gts_path background) (enumerate 0 views) w1)"

subsection \<open>Autograd, Adam and the cosine schedule\<close>

text \<open>
  \<^verbatim>\<open>loss.backward()\<close> accumulates a gradient into every tensor that requires one and
  leaves the others alone.
\<close>

definition backward :: "env \<Rightarrow> view \<Rightarrow> store \<Rightarrow> store" where
  "backward e view s =
     (\<lambda>t. if requires_grad (s t)
          then let g = autograd e view (\<lambda>t'. data (s t')) t
               in (s t)\<lparr>grad := Some (case grad (s t) of None \<Rightarrow> g
                                      | Some old \<Rightarrow> map2 (+) old g)\<rparr>
          else s t)"

text \<open>
  The optimizer holds its parameter groups (the registered tensors with the group's
  learning rate) and, for each tensor, the values and gradients it has been stepped with,
  from which Adam's moment estimates and step count are computed.
\<close>

record optimizer =
  param_groups :: "(tensor_id list \<times> real) list"
  seen_grads :: "tensor_id \<Rightarrow> (tensor \<times> tensor) list"

record cosine_scheduler =
  T_max :: int
  eta_min :: real
  base_lrs :: "real list"
  last_epoch :: nat

text \<open>\<^verbatim>\<open>Optimizer.step\<close>: a registered tensor without a gradient is skipped.\<close>

definition step_param ::
  "env \<Rightarrow> real \<Rightarrow> tensor_id \<Rightarrow> store \<times> (tensor_id \<Rightarrow> (tensor \<times> tensor) list)
     \<Rightarrow> store \<times> (tensor_id \<Rightarrow> (tensor \<times> tensor) list)" where
  "step_param e lr t sh =
     (let s = fst sh; h = snd sh
      in case grad (s t) of
           None \<Rightarrow> (s, h)
         | Some g \<Rightarrow>
             (let h' = h(t := (data (s t), g) # h t)
              in (s(t := (s t)\<lparr>data := adam_update e lr (h' t)\<rparr>), h')))"

definition optimizer_step :: "env \<Rightarrow> optimizer \<Rightarrow> store \<Rightarrow> store \<times> optimizer" where
  "optimizer_step e opt s =
     (let sh = fold (\<lambda>group. fold (step_param e (snd group)) (fst group))
                 (param_groups opt) (s, seen_grads opt)
      in (fst sh, opt\<lparr>seen_grads := snd sh\<rparr>))"

text \<open>\<^verbatim>\<open>zero_grad(set_to_none=True)\<close>.\<close>

definition zero_grad :: "optimizer \<Rightarrow> store \<Rightarrow> store" where
  "zero_grad opt s =
     fold (\<lambda>t s'. s'(t := (s' t)\<lparr>grad := None\<rparr>)) (concat (map fst (param_groups opt))) s"

definition scheduler_step ::
  "env \<Rightarrow> cosine_scheduler \<Rightarrow> optimizer \<Rightarrow> cosine_scheduler \<times> optimizer" where
  "scheduler_step e sch opt =
     (let epoch = last_epoch sch + 1
      in (sch\<lparr>last_epoch := epoch\<rparr>,
          opt\<lparr>param_groups :=
                map2 (\<lambda>group base.
                        (fst group,
                         cosine_annealing_lr e (T_max sch) (eta_min sch) base (snd group) epoch))
                  (param_groups opt) (base_lrs sch)\<rparr>))"

subsection \<open>Test-time pose refinement\<close>

text \<open>\<^verbatim>\<open>(rendering > black_hole_threshold).float()\<close>, elementwise.\<close>

definition threshold_mask :: "real \<Rightarrow> image \<Rightarrow> image" where
  "threshold_mask black_hole_threshold rendering =
     map (map (map (\<lambda>x. if x > black_hole_threshold then 1 else 0))) rendering"

text \<open>The variables of the inner loop that outlive an iteration.\<close>

record refine_state =
  candidate_q :: tensor
  candidate_T :: tensor
  current_min_loss :: real
  initial_loss :: "real option"
  pose_optimizer :: optimizer
  scheduler :: cosine_scheduler

text \<open>The pose the optimizer is updating: \<^verbatim>\<open>torch.cat([camera_tensor_q, camera_tensor_T])\<close>.\<close>

definition live_pose :: "world \<Rightarrow> tensor" where
  "live_pose w = data (tensors w Camera_tensor_q) @ data (tensors w Camera_tensor_T)"

text \<open>One iteration of the inner loop (lines 160 to 187).\<close>

definition refine_iteration ::
  "env \<Rightarrow> view \<Rightarrow> tensor \<Rightarrow> image \<Rightarrow> nat \<Rightarrow> refine_state \<times> world \<Rightarrow> refine_state \<times> world" where
  "refine_iteration e view background gt iteration stw =
     (let st = fst stw; w = snd stw;
          rendering = render e view (gaussians w) background (live_pose w);
          black_hole_threshold = 0.0;
          mask = threshold_mask black_hole_threshold rendering;
          loss = l1_loss_mask e rendering gt mask;
          s1 = backward e view (tensors w);
          so = optimizer_step e (pose_optimizer st) s1;
          s3 = zero_grad (snd so) (fst so);
          initial_loss' = (if iteration = 0 then Some loss else initial_loss st);
          st1 = st\<lparr>initial_loss := initial_loss', pose_optimizer := snd so\<rparr>;
          st2 = (if loss < current_min_loss st1
                 then st1\<lparr>current_min_loss := loss,
                          candidate_q := data (s3 Camera_tensor_q),
                          candidate_T := data (s3 Camera_tensor_T)\<rparr>
                 else st1);
          sch = scheduler_step e (scheduler st2) (pose_optimizer st2);
          w' = emit [Render view (live_pose w), Loss_eval loss, Backward, Optimizer_step,
                     Set_postfix loss initial_loss', Scheduler_step] (w\<lparr>tensors := s3\<rparr>)
      in (st2\<lparr>scheduler := fst sch, pose_optimizer := snd sch\<rparr>, w'))"

text \<open>\<^verbatim>\<open>for iteration in range(num_iter)\<close>: the first \<open>n\<close> iterations.\<close>

definition refine_loop ::
  "env \<Rightarrow> view \<Rightarrow> tensor \<Rightarrow> image \<Rightarrow> nat \<Rightarrow> refine_state \<times> world \<Rightarrow> refine_state \<times> world" where
  "refine_loop e view background gt n stw = fold (refine_iteration e view background gt) [0..<n] stw"

text \<open>
  Lines 132 to 157: the pose tensors of the view, the optimizer over them, the scheduler
  and the tracker, before the first iteration.
\<close>

definition refine_init :: "env \<Rightarrow> int \<Rightarrow> view \<Rightarrow> world \<Rightarrow> refine_state \<times> world" where
  "refine_init e num_iter view w =
     (let camera_pose = get_tensor_from_camera e (transpose (world_view_transform view));
          camera_tensor_T = \<lparr>data = drop (length camera_pose - 3) camera_pose,
                             requires_grad = True, grad = None\<rparr>;
          camera_tensor_q = \<lparr>data = take 4 camera_pose, requires_grad = True, grad = None\<rparr>;
          pose_optimizer' = \<lparr>param_groups = [([Camera_tensor_T], 0.003), ([Camera_tensor_q], 0.001)],
                             seen_grads = (\<lambda>_. [])\<rparr>;
          scheduler' = \<lparr>T_max = num_iter, eta_min = 0.0001, base_lrs = [0.003, 0.001],
                        last_epoch = 0\<rparr>
      in (\<lparr>candidate_q = data camera_tensor_q, candidate_T = data camera_tensor_T,
           current_min_loss = 100000000000000000000, initial_loss = None,
           pose_optimizer = pose_optimizer', scheduler = scheduler'\<rparr>,
          w\<lparr>tensors := (tensors w)(Camera_tensor_T := camera_tensor_T,
                                    Camera_tensor_q := camera_tensor_q)\<rparr>))"

text \<open>
  The body of the outer loop (lines 132 to 203). It returns the world and the loop
  variables \<^verbatim>\<open>view\<close> and \<^verbatim>\<open>optimal_pose\<close>, which the benchmark reads after the loop.
\<close>

definition refine_view ::
  "env \<Rightarrow> 'a args_scheme \<Rightarrow> string \<Rightarrow> string \<Rightarrow> tensor \<Rightarrow> nat \<times> view \<Rightarrow> world
     \<Rightarrow> world \<times> (view \<times> tensor) option" where
  "refine_view e a render_path' gts_path background iv w =
     (let view = snd iv;
          num_iter = optim_test_pose_iter a;
          gt = take 3 (original_image view);
          stw = refine_loop e view background gt (nat num_iter) (refine_init e num_iter view w);
          st = fst stw; w1 = snd stw;
          camera_tensor_q = \<lparr>data = candidate_q st, requires_grad = False, grad = None\<rparr>;
          camera_tensor_T = \<lparr>data = candidate_T st, requires_grad = False, grad = None\<rparr>;
          optimal_pose = data camera_tensor_q @ data camera_tensor_T;
          rendering_opt = render e view (gaussians w1) background optimal_pose;
          w2 = w1\<lparr>tensors := (tensors w1)(Camera_tensor_q := camera_tensor_q,
                                         Camera_tensor_T := camera_tensor_T)\<rparr>
      in (emit [Render view optimal_pose,
                Save_image rendering_opt (path_join [render_path', image_name view @ ''.png'']),
                Save_image gt (path_join [gts_path, image_name view @ ''.png''])] w2,
          Some (view, optimal_pose)))"

subsection \<open>The FPS benchmark\<close>

text \<open>
  Lines 213 to 215: sort, slice \<^verbatim>\<open>[100:900]\<close>, invert the mean. Python raises
  \<^verbatim>\<open>ZeroDivisionError\<close> when the slice is empty or its sum is zero.
\<close>

definition trimmed_fps :: "real list \<Rightarrow> error + real" where
  "trimmed_fps fps_list =
     (let fps_list' = drop 100 (take 900 (sort fps_list))
      in if length fps_list' = 0 then Inl ZeroDivisionError
         else if sum_list fps_list' / real (length fps_list') = 0 then Inl ZeroDivisionError
         else Inr (1 / (sum_list fps_list' / real (length fps_list'))))"

text \<open>One timed render (lines 209 to 212).\<close>

definition timed_render ::
  "env \<Rightarrow> view \<Rightarrow> tensor \<Rightarrow> nat \<Rightarrow> real list \<times> world \<Rightarrow> real list \<times> world" where
  "timed_render e view optimal_pose i lw =
     (let fps_list = fst lw; w = snd lw;
          start = perf_counter e (clock w);
          end' = perf_counter e (clock w + 1)
      in (fps_list @ [end' - start], emit [Render view optimal_pose] (w\<lparr>clock := clock w + 2\<rparr>)))"

text \<open>
  Lines 205 to 219. The loop variables are unbound when the loop over the views never
  ran; the first timed render then raises after one clock reading.
\<close>

definition fps_benchmark ::
  "env \<Rightarrow> string \<Rightarrow> (view \<times> tensor) option \<Rightarrow> world \<Rightarrow> error option \<times> world" where
  "fps_benchmark e model_path' loop_vars w =
     (let w1 = emit [Print ''>>> Calculate FPS: ''] w
      in case loop_vars of
           None \<Rightarrow> (Some (UnboundLocalError ''view''), w1\<lparr>clock := clock w1 + 1\<rparr>)
         | Some vp \<Rightarrow>
             (let lw = fold (timed_render e (fst vp) (snd vp)) [0..<1000] ([], w1)
              in case trimmed_fps (fst lw) of
                   Inl err \<Rightarrow> (Some err, snd lw)
                 | Inr fps \<Rightarrow>
                     (None, emit [Print ''>>> FPS = '',
                                  Json_dump fps (model_path' @ ''/total_fps.json'')] (snd lw))))"

subsection \<open>Pose refinement over a set of views\<close>

definition freeze :: "gaussian_field \<Rightarrow> store \<Rightarrow> store" where
  "freeze g s = s(Gaussian g := (s (Gaussian g))\<lparr>requires_grad := False\<rparr>)"

definition render_set_optimize ::
  "env \<Rightarrow> 'a args_scheme \<Rightarrow> string \<Rightarrow> string \<Rightarrow> int \<Rightarrow> view list \<Rightarrow> tensor \<Rightarrow> world
     \<Rightarrow> error option \<times> world" where
  "render_set_optimize e a model_path' name iteration views background w =
     (let render_path' = path_join [model_path', name, ''ours_'' @ str_int iteration, ''renders''];
          gts_path = path_join [model_path', name, ''ours_'' @ str_int iteration, ''gt''];
          w1 = emit [Makedirs render_path', Makedirs gts_path] w;
          w2 = w1\<lparr>tensors := fold freeze [Xyz, Features_dc, Features_rest, Opacity, Scaling, Rotation]
                                 (tensors w1)\<rparr>;
          wl = fold (\<lambda>iv wl. refine_view e a render_path' gts_path background iv (fst wl))
                 (enumerate 0 views) (w2, None)
      in if test_fps a then fps_benchmark e model_path' (snd wl) (fst wl)
         else (None, fst wl))"

subsection \<open>The orchestrator\<close>

text \<open>The loaded scene: its camera sets and the iteration it was loaded from.\<close>

record scene =
  getTrainCameras :: "view list"
  getTestCameras :: "view list"
  loaded_iter :: int

text \<open>Sequencing of steps that may raise: an error ends the run in the world it arose in.\<close>

definition and_then :: "error option \<times> 's \<Rightarrow> ('s \<Rightarrow> error option \<times> 's) \<Rightarrow> error option \<times> 's" where
  "and_then r f = (case fst r of None \<Rightarrow> f (snd r) | Some err \<Rightarrow> r)"

text \<open>Lines 302 to 310: the export of the test split when \<^verbatim>\<open>args.eval\<close> is set.\<close>

definition export_test_images ::
  "'d model_params_scheme \<Rightarrow> 'a args_scheme \<Rightarrow> scene \<Rightarrow> string \<Rightarrow> world \<Rightarrow> world" where
  "export_test_images dataset a scn test_dir w =
     (if \<not> skip_test a \<and> length (getTestCameras scn) > 0
      then emit [Print ''export rendered testing images ...'', Makedirs test_dir,
                 Reconstruction_optim (getTestCameras scn) (optim_test_pose_iter a),
                 Save_time (model_path dataset) ''[5] render_test'',
                 Export_image test_dir] w
      else w)"

text \<open>
  Lines 313 to 320. The state carries the local variable \<^verbatim>\<open>optimized_pose\<close>, which is
  unbound (\<open>None\<close>) until this block assigns it.
\<close>

definition export_training_images ::
  "env \<Rightarrow> 'a args_scheme \<Rightarrow> int \<Rightarrow> scene \<Rightarrow> string \<Rightarrow> real list list list option \<times> world
     \<Rightarrow> error option \<times> (real list list list option \<times> world)" where
  "export_training_images e a iteration scn train_dir pw =
     (if \<not> skip_train a
      then let w1 = emit [Print ''export training images ...'', Makedirs train_dir] (snd pw)
           in case np_load e (model_path a) iteration ''pose_optimized.npy'' of
                None \<Rightarrow> (Some (FileNotFoundError ''pose_optimized.npy''), (fst pw, w1))
              | Some optimized_pose \<Rightarrow>
                  (None, (Some optimized_pose,
                          emit [Reconstruction_optim
                                  (loadCameras e optimized_pose (getTrainCameras scn)) 0,
                                Export_image train_dir] w1))
      else (None, pw))"

text \<open>Lines 342 to 347: writing the mesh and its post-processed version.\<close>

definition write_meshes :: "'a args_scheme \<Rightarrow> string \<Rightarrow> string \<Rightarrow> string \<Rightarrow> world \<Rightarrow> world" where
  "write_meshes a train_dir name name_post w =
     emit [Write_triangle_mesh (path_join [train_dir, name]),
           Print (''mesh saved at '' @ path_join [train_dir, name]),
           Post_process_mesh (num_cluster a),
           Write_triangle_mesh (path_join [train_dir, name_post]),
           Print (''mesh post processed saved at '' @ path_join [train_dir, name_post])] w"

text \<open>Lines 322 to 347.\<close>

definition export_mesh ::
  "env \<Rightarrow> 'a args_scheme \<Rightarrow> scene \<Rightarrow> string \<Rightarrow> real list list list option \<times> world
     \<Rightarrow> error option \<times> (real list list list option \<times> world)" where
  "export_mesh e a scn train_dir pw =
     (if \<not> skip_mesh a
      then let w1 = emit [Print ''export mesh ...'', Makedirs train_dir, Set_active_sh_degree 0]
                      (snd pw)
           in case fst pw of
                None \<Rightarrow> (Some (UnboundLocalError ''optimized_pose''), (None, w1))
              | Some optimized_pose \<Rightarrow>
                  (let viewpoint_stack = loadCameras e optimized_pose (getTrainCameras scn);
                       w2 = emit [Reconstruction_optim viewpoint_stack 0] w1
                   in if unbounded a
                      then (None, (fst pw,
                              write_meshes a train_dir ''fuse_unbounded.ply''
                                ''fuse_unbounded_post.ply''
                                (emit [Extract_mesh_unbounded (mesh_res a)] w2)))
                      else case bounded_mesh_params (extractor_radius e viewpoint_stack) a of
                             Inl err \<Rightarrow> (Some err, (fst pw, w2))
                           | Inr (voxel_size', sdf_trunc', depth_trunc') \<Rightarrow>
                               (None, (fst pw,
                                  write_meshes a train_dir ''fuse.ply'' ''fuse_post.ply''
                                    (emit [Extract_mesh_bounded voxel_size' sdf_trunc'
                                             depth_trunc'] w2))))
      else (None, pw))"

text \<open>Lines 350 to 362.\<close>

definition render_videos ::
  "env \<Rightarrow> 'a args_scheme \<Rightarrow> scene \<Rightarrow> real list list list option \<times> world
     \<Rightarrow> error option \<times> (real list list list option \<times> world)" where
  "render_videos e a scn pw =
     (if render_path a
      then let traj_dir = path_join [model_path a, ''traj'', ''ours_'' @ str_int (loaded_iter scn)];
               n_fames = 240;
               w1 = emit [Print ''render videos ...'', Makedirs traj_dir] (snd pw)
           in case fst pw of
                None \<Rightarrow> (Some (UnboundLocalError ''optimized_pose''), (None, w1))
              | Some optimized_pose \<Rightarrow>
                  (None, (fst pw,
                     emit [Reconstruction
                             (generate_path e (loadCameras e optimized_pose (getTrainCameras scn))
                                n_fames),
                           Export_image traj_dir,
                           Create_videos traj_dir n_fames] w1))
      else (None, pw))"

text \<open>
  \<^verbatim>\<open>render_sets\<close>. The model and the scene are loaded before anything else; the scene
  and the world after loading are parameters. The refinement reads the global
  \<^verbatim>\<open>args\<close>, which is the \<^verbatim>\<open>args\<close> passed here.
\<close>

definition render_sets ::
  "env \<Rightarrow> 'd model_params_scheme \<Rightarrow> int \<Rightarrow> bool \<Rightarrow> bool \<Rightarrow> 'a args_scheme \<Rightarrow> scene \<Rightarrow> world
     \<Rightarrow> error option \<times> world" where
  "render_sets e dataset iteration skip_train' skip_test' a scn w =
     (let bg_color = (if white_background dataset then [1, 1, 1] else [0, 0, 0]);
          background = bg_color
      in if \<not> surf a
         then
           and_then
             (if \<not> skip_train' \<and> \<not> infer_video a \<and> \<not> eval dataset
              then case np_load e (model_path a) iteration ''pose_optimized.npy'' of
                     None \<Rightarrow> (Some (FileNotFoundError ''pose_optimized.npy''), w)
                   | Some optimized_pose \<Rightarrow>
                       (None, render_set e (model_path dataset) ''train'' (loaded_iter scn)
                                (loadCameras e optimized_pose (getTrainCameras scn)) background w)
              else and_then
                     (if \<not> skip_test'
                      then render_set_optimize e a (model_path dataset) ''test'' (loaded_iter scn)
                             (getTestCameras scn) background w
                      else (None, w))
                     (\<lambda>w1. (None, emit [Save_time (model_path dataset) ''[4] render''] w1)))
             (\<lambda>w1. if infer_video a \<and> \<not> eval dataset
                   then case save_interpolate_pose e (model_path a) iteration (n_views a) of
                          Inl err \<Rightarrow> (Some err, w1)
                        | Inr interp_pose \<Rightarrow>
                            (None,
                             emit [Images_to_video
                                     (path_join [model_path dataset,
                                        ''interp/ours_'' @ str_int iteration @ ''/renders''])
                                     (path_join [model_path dataset,
                                        ''interp/ours_'' @ str_int iteration @ ''/interp_''
                                        @ str_int (n_views a) @ ''_view.mp4''])]
                               (render_set e (model_path dataset) ''interp'' (loaded_iter scn)
                                  (loadCameras e interp_pose (getTrainCameras scn)) background
                                  (emit [Save_interpolate_pose (model_path a) iteration (n_views a)]
                                     w1)))
                   else (None, w1))
         else
           (let train_dir = path_join [model_path a, ''train'', ''ours_'' @ str_int (loaded_iter scn)];
                test_dir = path_join [model_path a, ''test'', ''ours_'' @ str_int (loaded_iter scn)];
                r = and_then
                      (if eval a
                       then (None, (None, export_test_images dataset a scn test_dir w))
                       else and_then (export_training_images e a iteration scn train_dir (None, w))
                              (export_mesh e a scn train_dir))
                      (render_videos e a scn)
            in (fst r, snd (snd r))))"

subsection \<open>Notions used in the statements\<close>

text \<open>
  The loss an iteration of the inner loop observes in a given world: lines 160 to 169
  put together.
\<close>

definition observed_loss :: "env \<Rightarrow> view \<Rightarrow> tensor \<Rightarrow> image \<Rightarrow> world \<Rightarrow> real" where
  "observed_loss e view background gt w =
     (let rendering = render e view (gaussians w) background (live_pose w)
      in l1_loss_mask e rendering gt (threshold_mask 0.0 rendering))"

text \<open>
  Modelled from the spec: \<^verbatim>\<open>l1_loss_mask\<close> of \<^verbatim>\<open>utils.loss_utils\<close>, which is not
  among the sources. The specification calls it a masked L1 photometric loss against the
  ground-truth image, in which the mask suppresses pixels: the absolute differences are
  weighted by the mask and averaged over the weight of the mask, for images of one shape.
  Where the mask is zero everywhere the quotient is no number (\<open>None\<close>).
\<close>

definition masked_l1 :: "image \<Rightarrow> image \<Rightarrow> image \<Rightarrow> real option" where
  "masked_l1 network_output gt mask' =
     (let out = concat (concat network_output); g = concat (concat gt);
          m = concat (concat mask')
      in if sum_list m = 0 then None
         else Some (sum_list (map (\<lambda>(x, y, z). \<bar>(x - y) * z\<bar>) (zip out (zip g m))) / sum_list m))"

text \<open>The external call an effect records.\<close>

datatype call = Render_call | Loss_call | Backward_call | Step_call | Postfix_call
  | Scheduler_call | Save_call | Other_call

fun call_of :: "event \<Rightarrow> call" where
  "call_of (Render _ _) = Render_call"
| "call_of (Loss_eval _) = Loss_call"
| "call_of Backward = Backward_call"
| "call_of Optimizer_step = Step_call"
| "call_of (Set_postfix _ _) = Postfix_call"
| "call_of Scheduler_step = Scheduler_call"
| "call_of (Save_image _ _) = Save_call"
| "call_of _ = Other_call"

text \<open>The images \<^verbatim>\<open>render_set\<close> saves for one view, in order.\<close>

definition render_set_files ::
  "env \<Rightarrow> string \<Rightarrow> string \<Rightarrow> string \<Rightarrow> tensor \<Rightarrow> world \<Rightarrow> nat \<times> view \<Rightarrow> (image \<times> string) list" where
  "render_set_files e name rp gp bg w iv =
     (render e (snd iv) (gaussians w) bg
        (get_tensor_from_camera e (transpose (world_view_transform (snd iv)))),
      path_join [rp, format_05d (fst iv) @ ''.png''])
     # (if name \<noteq> ''interp''
        then [(take 3 (original_image (snd iv)), path_join [gp, format_05d (fst iv) @ ''.png''])]
        else [])"

text \<open>The optimizer of a loop state holds the two pose tensors and nothing else.\<close>

definition pose_only :: "refine_state \<Rightarrow> bool" where
  "pose_only st \<longleftrightarrow>
     map fst (param_groups (pose_optimizer st)) = [[Camera_tensor_T], [Camera_tensor_q]]
     \<and> length (base_lrs (scheduler st)) = 2"

subsection \<open>A concrete instance\<close>

text \<open>
  A renderer that shows the first pose component in the single pixel of its first channel
  and zero in the other two, an optimizer that moves every component down by two on its
  first step and up by one afterwards, a clock that advances by one per reading, and a
  view of one pixel with ground truth \<open>1, 9, 0\<close>. From the pose
  \<open>[4, 0, 0, 0, 5, 6, 7]\<close> the losses observed are \<open>3, 1, 2, 3, \<dots>\<close>.
\<close>

definition sample_env :: env where
  "sample_env = \<lparr>
     render = (\<lambda>view g background pose. [[[sum_list (take 1 pose)]], [[0]], [[0]]]),
     get_tensor_from_camera = concat,
     l1_loss_mask = (\<lambda>out gt m. case masked_l1 out gt m of Some x \<Rightarrow> x | None \<Rightarrow> 0),
     autograd = (\<lambda>view d t. map (\<lambda>_. 1) (d t)),
     adam_update = (\<lambda>lr h. map (\<lambda>x. if length h = 1 then x - 2 else x + 1) (fst (hd h))),
     cosine_annealing_lr = (\<lambda>T_max' eta_min' base lr epoch. lr),
     perf_counter = real,
     np_load = (\<lambda>path iteration file. None),
     loadCameras = (\<lambda>poses views. views),
     extractor_radius = (\<lambda>views. 2),
     generate_path = (\<lambda>views n. views),
     save_interpolate_pose = (\<lambda>path iteration n. Inl (FileNotFoundError ''pose_optimized.npy'')) \<rparr>"

definition sample_view :: view where
  "sample_view = \<lparr> image_name = ''00001'', original_image = [[[1]], [[9]], [[0]], [[0]]],
     world_view_transform = [[4], [0], [0], [0], [5], [6], [7]] \<rparr>"

definition sample_world :: world where
  "sample_world = \<lparr> tensors = (\<lambda>t. \<lparr>data = [1, 2], requires_grad = True, grad = None\<rparr>),
     events = [], clock = 0 \<rparr>"

definition sample_scene :: scene where
  "sample_scene = \<lparr> getTrainCameras = [sample_view], getTestCameras = [], loaded_iter = 7 \<rparr>"

section \<open>Theorems\<close>

subsection \<open>Effects and the world\<close>

lemma saved_images_append: "saved_images (xs @ ys) = saved_images xs @ saved_images ys"
  by (induction xs rule: saved_images.induct) auto

lemma gaussians_emit: "gaussians (emit es w) = gaussians w"
  by (simp add: gaussians_def emit_def fun_eq_iff)

lemma events_emit: "events (emit es w) = events w @ es"
  by (simp add: emit_def)

lemma concat_replicate_snoc: "concat (replicate n xs) @ xs = concat (replicate (Suc n) xs)"
  by (induction n) simp_all

subsection \<open>The plain render, view by view\<close>

lemma render_set_view_saved:
  "saved_images (events (render_set_view e name rp gp bg iv w)) =
     saved_images (events w) @ render_set_files e name rp gp bg w iv"
  by (simp add: render_set_view_def render_set_files_def Let_def events_emit saved_images_append)

lemma render_set_view_gaussians:
  "gaussians (render_set_view e name rp gp bg iv w) = gaussians w"
  by (simp add: render_set_view_def Let_def gaussians_emit)

lemma render_set_files_cong:
  "gaussians w' = gaussians w \<Longrightarrow>
   render_set_files e name rp gp bg w' = render_set_files e name rp gp bg w"
  by (rule ext) (simp add: render_set_files_def)

lemma fold_render_set_view_saved:
  "saved_images (events (fold (render_set_view e name rp gp bg) ivs w)) =
     saved_images (events w) @ concat (map (render_set_files e name rp gp bg w) ivs)"
proof (induction ivs arbitrary: w)
  case Nil
  show ?case by simp
next
  case (Cons iv ivs)
  have "render_set_files e name rp gp bg (render_set_view e name rp gp bg iv w)
        = render_set_files e name rp gp bg w"
    by (rule render_set_files_cong) (rule render_set_view_gaussians)
  then show ?case
    by (simp add: Cons.IH render_set_view_saved)
qed

lemma render_set_saves:
  "saved_images (events (render_set e mp name it views bg w)) =
     saved_images (events w) @
     concat (map (render_set_files e name
        (path_join [mp, name, ''ours_'' @ str_int it, ''renders''])
        (path_join [mp, name, ''ours_'' @ str_int it, ''gt'']) bg w) (enumerate 0 views))"
proof -
  let ?w1 = "emit [Makedirs (path_join [mp, name, ''ours_'' @ str_int it, ''renders'']),
                   Makedirs (path_join [mp, name, ''ours_'' @ str_int it, ''gt''])] w"
  have g: "gaussians ?w1 = gaussians w" by (rule gaussians_emit)
  have s: "saved_images (events ?w1) = saved_images (events w)"
    by (simp add: events_emit saved_images_append)
  show ?thesis
    unfolding render_set_def Let_def fold_render_set_view_saved s
    using render_set_files_cong [OF g] by simp
qed

subsection \<open>One iteration and the loop\<close>

lemma refine_iteration_tracker:
  "current_min_loss (fst (refine_iteration e v bg gt i stw)) =
     (if observed_loss e v bg gt (snd stw) < current_min_loss (fst stw)
      then observed_loss e v bg gt (snd stw) else current_min_loss (fst stw))"
  "candidate_q (fst (refine_iteration e v bg gt i stw)) =
     (if observed_loss e v bg gt (snd stw) < current_min_loss (fst stw)
      then data (tensors (snd (refine_iteration e v bg gt i stw)) Camera_tensor_q)
      else candidate_q (fst stw))"
  "candidate_T (fst (refine_iteration e v bg gt i stw)) =
     (if observed_loss e v bg gt (snd stw) < current_min_loss (fst stw)
      then data (tensors (snd (refine_iteration e v bg gt i stw)) Camera_tensor_T)
      else candidate_T (fst stw))"
  by (simp_all add: refine_iteration_def observed_loss_def Let_def scheduler_step_def emit_def)

lemma refine_iteration_events:
  "events (snd (refine_iteration e v bg gt i stw)) =
     events (snd stw) @
       [Render v (live_pose (snd stw)), Loss_eval (observed_loss e v bg gt (snd stw)),
        Backward, Optimizer_step,
        Set_postfix (observed_loss e v bg gt (snd stw))
          (if i = 0 then Some (observed_loss e v bg gt (snd stw)) else initial_loss (fst stw)),
        Scheduler_step]"
  by (simp add: refine_iteration_def observed_loss_def Let_def emit_def)

lemma refine_loop_Suc:
  "refine_loop e v bg gt (Suc n) stw = refine_iteration e v bg gt n (refine_loop e v bg gt n stw)"
  by (simp add: refine_loop_def)

lemma refine_loop_0: "refine_loop e v bg gt 0 stw = stw"
  by (simp add: refine_loop_def)

lemma min_loss_step:
  "current_min_loss (fst (refine_loop e v bg gt (Suc n) stw))
     \<le> current_min_loss (fst (refine_loop e v bg gt n stw))"
  by (simp add: refine_loop_Suc refine_iteration_tracker)

lemma min_loss_mono:
  "k \<le> j \<Longrightarrow> current_min_loss (fst (refine_loop e v bg gt j stw))
     \<le> current_min_loss (fst (refine_loop e v bg gt k stw))"
proof (induction j)
  case 0
  then show ?case by simp
next
  case (Suc j)
  show ?case
  proof (cases "k = Suc j")
    case True
    then show ?thesis by simp
  next
    case False
    with Suc.prems have "k \<le> j" by simp
    from Suc.IH [OF this] min_loss_step [of e v bg gt j stw] show ?thesis by linarith
  qed
qed

lemma min_loss_first:
  assumes "0 < n"
  shows "current_min_loss (fst (refine_loop e v bg gt n stw)) \<le> observed_loss e v bg gt (snd stw)"
proof -
  from assms have "1 \<le> n" by simp
  from min_loss_mono [OF this, of e v bg gt stw]
  have "current_min_loss (fst (refine_loop e v bg gt n stw))
     \<le> current_min_loss (fst (refine_loop e v bg gt 1 stw))" .
  also have "\<dots> \<le> observed_loss e v bg gt (snd stw)"
    by (simp add: refine_loop_def refine_iteration_tracker)
  finally show ?thesis .
qed

lemma refine_loop_events:
  "\<exists>new. events (snd (refine_loop e v bg gt n stw)) = events (snd stw) @ new
     \<and> map call_of new = concat (replicate n
          [Render_call, Loss_call, Backward_call, Step_call, Postfix_call, Scheduler_call])"
proof (induction n)
  case 0
  show ?case by (simp add: refine_loop_0)
next
  case (Suc n)
  let ?it = "[Render_call, Loss_call, Backward_call, Step_call, Postfix_call, Scheduler_call]"
  from Suc obtain new where
    new: "events (snd (refine_loop e v bg gt n stw)) = events (snd stw) @ new"
      "map call_of new = concat (replicate n ?it)"
    by blast
  obtain new' where
    new': "events (snd (refine_loop e v bg gt (Suc n) stw)) = events (snd stw) @ new @ new'"
      "map call_of new' = ?it"
    unfolding refine_loop_Suc refine_iteration_events new(1) by simp
  have "map call_of (new @ new') = concat (replicate (Suc n) ?it)"
    unfolding map_append new(2) new'(2) by (rule concat_replicate_snoc)
  with new'(1) show ?case by (metis append_assoc)
qed

lemma refine_init_events: "events (snd (refine_init e n v w)) = events w"
  by (simp add: refine_init_def Let_def)

lemma refine_view_events:
  "events (fst (refine_view e a rp gp bg iv w)) =
     events (snd (refine_loop e (snd iv) bg (take 3 (original_image (snd iv)))
                   (nat (optim_test_pose_iter a)) (refine_init e (optim_test_pose_iter a) (snd iv) w)))
     @ (let st = fst (refine_loop e (snd iv) bg (take 3 (original_image (snd iv)))
                   (nat (optim_test_pose_iter a)) (refine_init e (optim_test_pose_iter a) (snd iv) w));
            w1 = snd (refine_loop e (snd iv) bg (take 3 (original_image (snd iv)))
                   (nat (optim_test_pose_iter a)) (refine_init e (optim_test_pose_iter a) (snd iv) w))
        in [Render (snd iv) (candidate_q st @ candidate_T st),
            Save_image (render e (snd iv) (gaussians w1) bg (candidate_q st @ candidate_T st))
              (path_join [rp, image_name (snd iv) @ ''.png'']),
            Save_image (take 3 (original_image (snd iv)))
              (path_join [gp, image_name (snd iv) @ ''.png''])])"
  by (simp add: refine_view_def Let_def emit_def gaussians_def)

lemma refine_view_vars:
  "snd (refine_view e a rp gp bg iv w) =
     Some (snd iv,
       candidate_q (fst (refine_loop e (snd iv) bg (take 3 (original_image (snd iv)))
                   (nat (optim_test_pose_iter a)) (refine_init e (optim_test_pose_iter a) (snd iv) w)))
       @ candidate_T (fst (refine_loop e (snd iv) bg (take 3 (original_image (snd iv)))
                   (nat (optim_test_pose_iter a)) (refine_init e (optim_test_pose_iter a) (snd iv) w))))"
  by (simp add: refine_view_def Let_def)

subsection \<open>The tracker holds the first minimum\<close>

lemma tracker_invariant:
  fixes e v bg gt stw
  defines "S \<equiv> \<lambda>k. refine_loop e v bg gt k stw"
  defines "L \<equiv> \<lambda>k. observed_loss e v bg gt (snd (S k))"
  shows "(current_min_loss (fst (S k)) = current_min_loss (fst stw)
          \<and> candidate_q (fst (S k)) = candidate_q (fst stw)
          \<and> candidate_T (fst (S k)) = candidate_T (fst stw)
          \<and> (\<forall>j<k. current_min_loss (fst stw) \<le> L j))
       \<or> (\<exists>i<k. current_min_loss (fst (S k)) = L i
          \<and> L i < current_min_loss (fst stw)
          \<and> candidate_q (fst (S k)) = data (tensors (snd (S (Suc i))) Camera_tensor_q)
          \<and> candidate_T (fst (S k)) = data (tensors (snd (S (Suc i))) Camera_tensor_T)
          \<and> (\<forall>j<k. L i \<le> L j) \<and> (\<forall>j<i. L i < L j))"
    (is "?A k \<or> ?B k")
proof (induction k)
  case 0
  show ?case by (simp add: S_def refine_loop_0)
next
  case (Suc k)
  have step: "S (Suc k) = refine_iteration e v bg gt k (S k)"
    by (simp add: S_def refine_loop_Suc)
  show ?case
  proof (cases "L k < current_min_loss (fst (S k))")
    case True
    then have new: "current_min_loss (fst (S (Suc k))) = L k"
      "candidate_q (fst (S (Suc k))) = data (tensors (snd (S (Suc k))) Camera_tensor_q)"
      "candidate_T (fst (S (Suc k))) = data (tensors (snd (S (Suc k))) Camera_tensor_T)"
      unfolding step by (simp_all add: refine_iteration_tracker L_def)
    from Suc.IH show ?thesis
    proof
      assume a: "?A k"
      with True have lt: "L k < current_min_loss (fst stw)" by simp
      have "\<forall>j<Suc k. L k \<le> L j"
        using a lt by (auto simp: less_Suc_eq)
      moreover have "\<forall>j<k. L k < L j"
        using a lt by fastforce
      ultimately have "?B (Suc k)"
        using new lt by (intro exI [of _ k]) simp
      then show ?thesis ..
    next
      assume "?B k"
      then obtain i where i: "i < k" "current_min_loss (fst (S k)) = L i"
        "L i < current_min_loss (fst stw)" "\<forall>j<k. L i \<le> L j"
        by blast
      from True i have lt: "L k < L i" by simp
      have "\<forall>j<Suc k. L k \<le> L j"
        using i(4) lt by (auto simp: less_Suc_eq)
      moreover have "\<forall>j<k. L k < L j"
        using i(4) lt by fastforce
      moreover have "L k < current_min_loss (fst stw)"
        using lt i(3) by simp
      ultimately have "?B (Suc k)"
        using new by (intro exI [of _ k]) simp
      then show ?thesis ..
    qed
  next
    case False
    then have old: "current_min_loss (fst (S (Suc k))) = current_min_loss (fst (S k))"
      "candidate_q (fst (S (Suc k))) = candidate_q (fst (S k))"
      "candidate_T (fst (S (Suc k))) = candidate_T (fst (S k))"
      unfolding step by (simp_all add: refine_iteration_tracker L_def)
    from Suc.IH show ?thesis
    proof
      assume a: "?A k"
      with False have "current_min_loss (fst stw) \<le> L k" by simp
      with a old have "?A (Suc k)" by (auto simp: less_Suc_eq)
      then show ?thesis ..
    next
      assume "?B k"
      then obtain i where i: "i < k" "current_min_loss (fst (S k)) = L i"
        "L i < current_min_loss (fst stw)"
        "candidate_q (fst (S k)) = data (tensors (snd (S (Suc i))) Camera_tensor_q)"
        "candidate_T (fst (S k)) = data (tensors (snd (S (Suc i))) Camera_tensor_T)"
        "\<forall>j<k. L i \<le> L j" "\<forall>j<i. L i < L j"
        by blast
      from False i(2) have "L i \<le> L k" by simp
      with i(6) have "\<forall>j<Suc k. L i \<le> L j" by (auto simp: less_Suc_eq)
      with i old have "?B (Suc k)"
        by (intro exI [of _ i]) simp
      then show ?thesis ..
    qed
  qed
qed

lemma candidate_never_improved:
  assumes "\<forall>j<n. current_min_loss (fst stw)
             \<le> observed_loss e v bg gt (snd (refine_loop e v bg gt j stw))"
  shows "candidate_q (fst (refine_loop e v bg gt n stw)) = candidate_q (fst stw)
       \<and> candidate_T (fst (refine_loop e v bg gt n stw)) = candidate_T (fst stw)
       \<and> current_min_loss (fst (refine_loop e v bg gt n stw)) = current_min_loss (fst stw)"
  using tracker_invariant [of e v bg gt n stw] assms by fastforce

lemma candidate_first_argmin:
  fixes e v bg gt stw
  defines "S \<equiv> \<lambda>k. refine_loop e v bg gt k stw"
  defines "L \<equiv> \<lambda>k. observed_loss e v bg gt (snd (S k))"
  assumes i: "i < n" and lt: "L i < current_min_loss (fst stw)"
    and le: "\<forall>j<n. L i \<le> L j" and first: "\<forall>j<i. L i < L j"
  shows "candidate_q (fst (S n)) = data (tensors (snd (S (Suc i))) Camera_tensor_q)
       \<and> candidate_T (fst (S n)) = data (tensors (snd (S (Suc i))) Camera_tensor_T)
       \<and> current_min_loss (fst (S n)) = L i"
proof -
  from tracker_invariant [of e v bg gt n stw]
  consider (A) "\<forall>j<n. current_min_loss (fst stw) \<le> L j"
    | (B) i' where "i' < n" "current_min_loss (fst (S n)) = L i'"
        "candidate_q (fst (S n)) = data (tensors (snd (S (Suc i'))) Camera_tensor_q)"
        "candidate_T (fst (S n)) = data (tensors (snd (S (Suc i'))) Camera_tensor_T)"
        "\<forall>j<n. L i' \<le> L j" "\<forall>j<i'. L i' < L j"
    unfolding S_def L_def by blast
  then show ?thesis
  proof cases
    case A
    with i lt show ?thesis by fastforce
  next
    case B
    have "i' = i"
    proof (rule ccontr)
      assume "i' \<noteq> i"
      then consider "i' < i" | "i < i'" by linarith
      then show False
      proof cases
        case 1
        with first have "L i < L i'" by simp
        moreover from B(5) i have "L i' \<le> L i" by simp
        ultimately show False by simp
      next
        case 2
        with B(6) have "L i' < L i" by simp
        moreover from le B(1) have "L i \<le> L i'" by simp
        ultimately show False by simp
      qed
    qed
    with B show ?thesis by simp
  qed
qed

subsection \<open>What the optimizer can touch\<close>

lemma backward_frozen: "\<not> requires_grad (s t) \<Longrightarrow> backward e v s t = s t"
  by (simp add: backward_def)

lemma step_param_other: "t' \<noteq> t \<Longrightarrow> fst (step_param e lr t sh) t' = fst sh t'"
  by (simp add: step_param_def Let_def split: option.splits)

lemma fold_step_param_other:
  "t' \<notin> set ts \<Longrightarrow> fst (fold (step_param e lr) ts sh) t' = fst sh t'"
  by (induction ts arbitrary: sh) (auto simp: step_param_other)

lemma fold_groups_other:
  "t' \<notin> set (concat (map fst groups)) \<Longrightarrow>
   fst (fold (\<lambda>group. fold (step_param e (snd group)) (fst group)) groups sh) t' = fst sh t'"
  by (induction groups arbitrary: sh) (auto simp: fold_step_param_other)

lemma optimizer_step_other:
  "t' \<notin> set (concat (map fst (param_groups opt))) \<Longrightarrow> fst (optimizer_step e opt s) t' = s t'"
  by (simp add: optimizer_step_def Let_def fold_groups_other)

lemma optimizer_step_groups:
  "param_groups (snd (optimizer_step e opt s)) = param_groups opt"
  by (simp add: optimizer_step_def Let_def)

lemma fold_zero_other:
  "t' \<notin> set ts \<Longrightarrow> fold (\<lambda>t s'. s'(t := (s' t)\<lparr>grad := None\<rparr>)) ts s t' = s t'"
  by (induction ts arbitrary: s) auto

lemma zero_grad_other:
  "t' \<notin> set (concat (map fst (param_groups opt))) \<Longrightarrow> zero_grad opt s t' = s t'"
  unfolding zero_grad_def by (rule fold_zero_other)

lemma refine_init_pose_only: "pose_only (fst (refine_init e n v w))"
  by (simp add: refine_init_def pose_only_def Let_def)

lemma refine_init_gaussian:
  "tensors (snd (refine_init e n v w)) (Gaussian g) = tensors w (Gaussian g)"
  by (simp add: refine_init_def Let_def)

lemma map2_fst_same:
  "length xs = length ys \<Longrightarrow> map fst (map2 (\<lambda>group base. (fst group, f group base)) xs ys) = map fst xs"
  by (induction xs ys rule: list_induct2) simp_all

lemma scheduler_step_groups:
  "length (param_groups opt) = length (base_lrs sch) \<Longrightarrow>
   map fst (param_groups (snd (scheduler_step e sch opt))) = map fst (param_groups opt)"
  unfolding scheduler_step_def Let_def
  using map2_fst_same [of "param_groups opt" "base_lrs sch"] by simp

lemma scheduler_step_base: "base_lrs (fst (scheduler_step e sch opt)) = base_lrs sch"
  by (simp add: scheduler_step_def Let_def)

lemma refine_iteration_pose_only:
  assumes "pose_only (fst stw)"
  shows "pose_only (fst (refine_iteration e v bg gt i stw))"
proof -
  from assms have l: "length (param_groups (pose_optimizer (fst stw))) = length (base_lrs (scheduler (fst stw)))"
    unfolding pose_only_def by (metis length_map length_Cons list.size(3) numeral_2_eq_2)
  show ?thesis
    using assms l
    by (simp add: pose_only_def refine_iteration_def Let_def scheduler_step_groups
      scheduler_step_base optimizer_step_groups)
qed

lemma refine_iteration_gaussian:
  assumes po: "pose_only (fst stw)" and fr: "\<not> requires_grad (tensors (snd stw) (Gaussian g))"
  shows "tensors (snd (refine_iteration e v bg gt i stw)) (Gaussian g) = tensors (snd stw) (Gaussian g)"
proof -
  have notin: "Gaussian g \<notin> set (concat (map fst (param_groups (pose_optimizer (fst stw)))))"
    using po by (simp add: pose_only_def)
  then have notin': "Gaussian g \<notin> set (concat (map fst (param_groups
        (snd (optimizer_step e (pose_optimizer (fst stw)) (backward e v (tensors (snd stw))))))))"
    by (simp add: optimizer_step_groups)
  show ?thesis
    by (simp add: refine_iteration_def Let_def emit_def zero_grad_other [OF notin']
        optimizer_step_other [OF notin] backward_frozen [of "tensors (snd stw)" "Gaussian g", OF fr])
qed

lemma refine_loop_frame:
  assumes "pose_only (fst stw)" and "\<not> requires_grad (tensors (snd stw) (Gaussian g))"
  shows "pose_only (fst (refine_loop e v bg gt k stw))
       \<and> tensors (snd (refine_loop e v bg gt k stw)) (Gaussian g) = tensors (snd stw) (Gaussian g)"
proof (induction k)
  case 0
  show ?case using assms by (simp add: refine_loop_0)
next
  case (Suc k)
  then show ?case
    using assms(2) by (simp add: refine_loop_Suc refine_iteration_pose_only refine_iteration_gaussian)
qed

lemma refine_view_gaussian:
  assumes "\<not> requires_grad (tensors w (Gaussian g))"
  shows "tensors (fst (refine_view e a rp gp bg iv w)) (Gaussian g) = tensors w (Gaussian g)"
proof -
  let ?init = "refine_init e (optim_test_pose_iter a) (snd iv) w"
  have "\<not> requires_grad (tensors (snd ?init) (Gaussian g))"
    using assms by (simp add: refine_init_gaussian)
  from refine_loop_frame [OF refine_init_pose_only this]
  show ?thesis
    by (simp add: refine_view_def Let_def emit_def refine_init_gaussian)
qed

lemma fold_refine_view_gaussian:
  assumes "\<not> requires_grad (tensors (fst wl) (Gaussian g))"
  shows "tensors (fst (fold (\<lambda>iv wl. refine_view e a rp gp bg iv (fst wl)) ivs wl)) (Gaussian g)
         = tensors (fst wl) (Gaussian g)"
  using assms
proof (induction ivs arbitrary: wl)
  case Nil
  show ?case by simp
next
  case (Cons iv ivs)
  have eq: "tensors (fst (refine_view e a rp gp bg iv (fst wl))) (Gaussian g) = tensors (fst wl) (Gaussian g)"
    by (rule refine_view_gaussian) (rule Cons.prems)
  then have "\<not> requires_grad (tensors (fst (refine_view e a rp gp bg iv (fst wl))) (Gaussian g))"
    using Cons.prems by simp
  from Cons.IH [OF this] eq show ?case by simp
qed

lemma fold_freeze:
  "fold freeze [Xyz, Features_dc, Features_rest, Opacity, Scaling, Rotation] s (Gaussian g)
     = (s (Gaussian g))\<lparr>requires_grad := False\<rparr>"
  by (cases g) (simp_all add: freeze_def)

lemma freeze_six:
  "freeze Rotation (freeze Scaling (freeze Opacity (freeze Features_rest
     (freeze Features_dc (freeze Xyz s))))) (Gaussian g)
   = (s (Gaussian g))\<lparr>requires_grad := False\<rparr>"
  by (cases g) (simp_all add: freeze_def)

lemma fold_timed_render_tensors:
  "tensors (snd (fold (timed_render e v p) is lw)) = tensors (snd lw)"
  by (induction "is" arbitrary: lw) (simp_all add: timed_render_def Let_def emit_def)

lemma fps_benchmark_tensors:
  "tensors (snd (fps_benchmark e mp lv w)) = tensors w"
  by (simp add: fps_benchmark_def Let_def emit_def fold_timed_render_tensors
      split: option.splits sum.splits)

subsection \<open>The mask and the trimmed mean\<close>

lemma threshold_mask_shape:
  "length (threshold_mask t r) = length r"
  "c < length r \<Longrightarrow> length (threshold_mask t r ! c) = length (r ! c)"
  "c < length r \<Longrightarrow> y < length (r ! c) \<Longrightarrow> length (threshold_mask t r ! c ! y) = length (r ! c ! y)"
  by (simp_all add: threshold_mask_def)

lemma threshold_mask_nth:
  "c < length r \<Longrightarrow> y < length (r ! c) \<Longrightarrow> x < length (r ! c ! y) \<Longrightarrow>
   threshold_mask t r ! c ! y ! x = (if r ! c ! y ! x > t then 1 else 0)"
  by (simp add: threshold_mask_def)

lemma threshold_mask_flat:
  "concat (concat (threshold_mask t r)) = map (\<lambda>x. if x > t then 1 else 0) (concat (concat r))"
  by (simp add: threshold_mask_def map_concat comp_def)

lemma sum_indicator:
  "sum_list (map (\<lambda>x. if x > t then 1 else 0) xs) = real (length (filter (\<lambda>x. x > (t::real)) xs))"
  by (induction xs) simp_all

lemma masked_numerator:
  "sum_list (map (\<lambda>(x, y, z). \<bar>(x - y) * z\<bar>) (zip out (zip g (map (\<lambda>x. if x > (0::real) then 1 else 0) out))))
   = sum_list (map (\<lambda>(x, y). \<bar>x - y\<bar>) (filter (\<lambda>(x, y). x > 0) (zip out g)))"
proof (induction out arbitrary: g)
  case Nil
  show ?case by simp
next
  case (Cons x out)
  show ?case by (cases g) (simp_all add: Cons.IH)
qed

lemma masked_l1_threshold:
  "masked_l1 rendering gt (threshold_mask 0 rendering) =
     (let out = concat (concat rendering); g = concat (concat gt)
      in if length (filter (\<lambda>x. x > 0) out) = 0 then None
         else Some (sum_list (map (\<lambda>(x, y). \<bar>x - y\<bar>) (filter (\<lambda>(x, y). x > 0) (zip out g)))
                    / real (length (filter (\<lambda>x. x > 0) out))))"
  by (simp add: masked_l1_def Let_def threshold_mask_flat sum_indicator masked_numerator)

lemma timed_render_fold:
  "fold (timed_render e v p) [0..<n] (l, w) =
     (l @ map (\<lambda>i. perf_counter e (clock w + 2 * i + 1) - perf_counter e (clock w + 2 * i)) [0..<n],
      w\<lparr>events := events w @ replicate n (Render v p), clock := clock w + 2 * n\<rparr>)"
proof (induction n)
  case 0
  show ?case by simp
next
  case (Suc n)
  have "fold (timed_render e v p) [0..<Suc n] (l, w)
        = timed_render e v p n (fold (timed_render e v p) [0..<n] (l, w))"
    by simp
  also have "\<dots> = timed_render e v p n
       (l @ map (\<lambda>i. perf_counter e (clock w + 2 * i + 1) - perf_counter e (clock w + 2 * i)) [0..<n],
        w\<lparr>events := events w @ replicate n (Render v p), clock := clock w + 2 * n\<rparr>)"
    by (simp only: Suc.IH)
  also have "\<dots> = (l @ map (\<lambda>i. perf_counter e (clock w + 2 * i + 1) - perf_counter e (clock w + 2 * i)) [0..<Suc n],
      w\<lparr>events := events w @ replicate (Suc n) (Render v p), clock := clock w + 2 * Suc n\<rparr>)"
    by (simp add: timed_render_def Let_def emit_def replicate_append_same)
  finally show ?case .
qed

lemma trimmed_len:
  "length ds = 1000 \<Longrightarrow> length (drop 100 (take 900 (sort ds))) = 800"
  by simp

lemma trimmed_split:
  "sort ds = take 100 (sort ds) @ drop 100 (take 900 (sort ds)) @ drop 900 (sort ds)"
proof -
  have "take 900 (sort ds) = take 100 (take 900 (sort ds)) @ drop 100 (take 900 (sort ds))"
    by (simp only: append_take_drop_id)
  moreover have "take 100 (take 900 (sort ds)) = take 100 (sort ds)" by simp
  moreover have "sort ds = take 900 (sort ds) @ drop 900 (sort ds)" by simp
  ultimately show ?thesis by (metis append_assoc)
qed

lemma sum_list_pos_real:
  "xs \<noteq> [] \<Longrightarrow> \<forall>x\<in>set xs. (0::real) < x \<Longrightarrow> 0 < sum_list xs"
  by (induction xs) (auto intro: add_pos_nonneg sum_list_nonneg less_imp_le)

lemma trimmed_fps_positive:
  assumes len: "length ds = 1000" and pos: "\<forall>d\<in>set ds. 0 < d"
  shows "trimmed_fps ds = Inr (1 / (sum_list (drop 100 (take 900 (sort ds))) / 800))
       \<and> 0 < 1 / (sum_list (drop 100 (take 900 (sort ds))) / 800)"
proof -
  let ?T = "drop 100 (take 900 (sort ds))"
  have l: "length ?T = 800" using len by simp
  then have ne: "?T \<noteq> []" by auto
  have "set ?T \<subseteq> set ds"
    using set_drop_subset [of 100 "take 900 (sort ds)"] set_take_subset [of 900 "sort ds"]
    by (metis set_sort subset_trans)
  with pos have "\<forall>x\<in>set ?T. 0 < x" by blast
  from sum_list_pos_real [OF ne this] have s: "0 < sum_list ?T" .
  then show ?thesis
    using l by (simp add: trimmed_fps_def Let_def)
qed

subsection \<open>The loop over the views and the benchmark\<close>

lemma enumerate_snoc: "enumerate n (xs @ [x]) = enumerate n xs @ [(n + length xs, x)]"
  by (simp add: enumerate_append_eq)

lemma views_loop_last:
  assumes "views \<noteq> []"
  shows "fold (\<lambda>iv wl. refine_view e a rp gp bg iv (fst wl)) (enumerate 0 views) wl =
         refine_view e a rp gp bg (length views - 1, last views)
           (fst (fold (\<lambda>iv wl. refine_view e a rp gp bg iv (fst wl)) (enumerate 0 (butlast views)) wl))"
proof -
  from assms have v: "views = butlast views @ [last views]" by simp
  have "enumerate 0 views = enumerate 0 (butlast views) @ [(length views - 1, last views)]"
    by (subst v, subst enumerate_snoc) simp
  then show ?thesis by simp
qed

lemma fps_benchmark_unbound:
  "fps_benchmark e mp None w =
     (Some (UnboundLocalError ''view''),
      w\<lparr>events := events w @ [Print ''>>> Calculate FPS: ''], clock := clock w + 1\<rparr>)"
  by (simp add: fps_benchmark_def Let_def emit_def)

lemma fps_benchmark_bound:
  "fst (fps_benchmark e mp (Some vp) w) \<in> {None, Some ZeroDivisionError}"
  by (simp add: fps_benchmark_def Let_def trimmed_fps_def split: sum.splits)

lemma fps_benchmark_events:
  "\<exists>fin. events (snd (fps_benchmark e mp (Some (v, p)) w)) =
     events w @ [Print ''>>> Calculate FPS: ''] @ replicate 1000 (Render v p) @ fin"
  by (auto simp add: fps_benchmark_def Let_def timed_render_fold emit_def split: sum.splits)

subsection \<open>The best-candidate tracker\<close>

text \<open>
  C1. Within one run of the inner loop, an iteration replaces the recorded minimum loss and
  the candidate pose only when the loss it observed is strictly below the minimum recorded so
  far; otherwise, ties included, the minimum and the candidate stay as they were. Hence the
  recorded minimum never increases from one iteration to a later one, and after a run of at
  least one iteration it is at most the loss observed in the first iteration. This holds
  for every renderer, loss and optimizer, and whatever state the loop starts in.
\<close>

theorem best_candidate_tracker:
  "(let loss = observed_loss e v bg gt (snd stw); r = refine_iteration e v bg gt i stw
    in (loss < current_min_loss (fst stw) \<longrightarrow>
          current_min_loss (fst r) = loss
          \<and> candidate_q (fst r) = data (tensors (snd r) Camera_tensor_q)
          \<and> candidate_T (fst r) = data (tensors (snd r) Camera_tensor_T))
     \<and> (\<not> loss < current_min_loss (fst stw) \<longrightarrow>
          current_min_loss (fst r) = current_min_loss (fst stw)
          \<and> candidate_q (fst r) = candidate_q (fst stw)
          \<and> candidate_T (fst r) = candidate_T (fst stw)))
   \<and> (k \<le> j \<longrightarrow>
        current_min_loss (fst (refine_loop e v bg gt j stw))
          \<le> current_min_loss (fst (refine_loop e v bg gt k stw)))
   \<and> (0 < n \<longrightarrow>
        current_min_loss (fst (refine_loop e v bg gt n stw)) \<le> observed_loss e v bg gt (snd stw))"
proof (intro conjI)
  show "let loss = observed_loss e v bg gt (snd stw); r = refine_iteration e v bg gt i stw
    in (loss < current_min_loss (fst stw) \<longrightarrow>
          current_min_loss (fst r) = loss
          \<and> candidate_q (fst r) = data (tensors (snd r) Camera_tensor_q)
          \<and> candidate_T (fst r) = data (tensors (snd r) Camera_tensor_T))
     \<and> (\<not> loss < current_min_loss (fst stw) \<longrightarrow>
          current_min_loss (fst r) = current_min_loss (fst stw)
          \<and> candidate_q (fst r) = candidate_q (fst stw)
          \<and> candidate_T (fst r) = candidate_T (fst stw))"
    unfolding Let_def by (simp add: refine_iteration_tracker)
  show "k \<le> j \<longrightarrow>
        current_min_loss (fst (refine_loop e v bg gt j stw))
          \<le> current_min_loss (fst (refine_loop e v bg gt k stw))"
    by (simp add: min_loss_mono)
  show "0 < n \<longrightarrow>
        current_min_loss (fst (refine_loop e v bg gt n stw)) \<le> observed_loss e v bg gt (snd stw)"
    by (simp add: min_loss_first)
qed

theorem best_candidate_tracker_witness:
  "(1::nat) \<le> 3 \<and> (0::nat) < 3
   \<and> current_min_loss (fst (refine_loop sample_env sample_view [0, 0, 0]
         (take 3 (original_image sample_view)) 3 (refine_init sample_env 3 sample_view sample_world)))
      \<le> current_min_loss (fst (refine_loop sample_env sample_view [0, 0, 0]
         (take 3 (original_image sample_view)) 1 (refine_init sample_env 3 sample_view sample_world)))
   \<and> current_min_loss (fst (refine_loop sample_env sample_view [0, 0, 0]
         (take 3 (original_image sample_view)) 3 (refine_init sample_env 3 sample_view sample_world)))
      \<le> observed_loss sample_env sample_view [0, 0, 0] (take 3 (original_image sample_view))
           (snd (refine_init sample_env 3 sample_view sample_world))
   \<and> current_min_loss (fst (refine_loop sample_env sample_view [0, 0, 0]
         (take 3 (original_image sample_view)) 3 (refine_init sample_env 3 sample_view sample_world)))
      = 1
   \<and> current_min_loss (fst (refine_loop sample_env sample_view [0, 0, 0]
         (take 3 (original_image sample_view)) 1 (refine_init sample_env 3 sample_view sample_world)))
      = 3
   \<and> observed_loss sample_env sample_view [0, 0, 0] (take 3 (original_image sample_view))
        (snd (refine_init sample_env 3 sample_view sample_world)) = 3"
proof -
  note t = best_candidate_tracker [of sample_env sample_view "[0, 0, 0]"
      "take 3 (original_image sample_view)" "refine_init sample_env 3 sample_view sample_world"
      0 1 3 3]
  have mono: "current_min_loss (fst (refine_loop sample_env sample_view [0, 0, 0]
         (take 3 (original_image sample_view)) 3 (refine_init sample_env 3 sample_view sample_world)))
      \<le> current_min_loss (fst (refine_loop sample_env sample_view [0, 0, 0]
         (take 3 (original_image sample_view)) 1 (refine_init sample_env 3 sample_view sample_world)))"
    using t by (elim conjE) simp
  have first: "current_min_loss (fst (refine_loop sample_env sample_view [0, 0, 0]
         (take 3 (original_image sample_view)) 3 (refine_init sample_env 3 sample_view sample_world)))
      \<le> observed_loss sample_env sample_view [0, 0, 0] (take 3 (original_image sample_view))
           (snd (refine_init sample_env 3 sample_view sample_world))"
    using t by (elim conjE) simp
  have v3: "current_min_loss (fst (refine_loop sample_env sample_view [0, 0, 0]
         (take 3 (original_image sample_view)) 3 (refine_init sample_env 3 sample_view sample_world)))
      = 1"
    by code_simp
  have v1: "current_min_loss (fst (refine_loop sample_env sample_view [0, 0, 0]
         (take 3 (original_image sample_view)) 1 (refine_init sample_env 3 sample_view sample_world)))
      = 3"
    by code_simp
  have v0: "observed_loss sample_env sample_view [0, 0, 0] (take 3 (original_image sample_view))
        (snd (refine_init sample_env 3 sample_view sample_world)) = 3"
    by code_simp
  from mono first v3 v1 v0 show ?thesis by (intro conjI) simp_all
qed

subsection \<open>The saved rendering uses the best candidate\<close>

text \<open>
  C2. For every view, the pose that is rendered and saved after the inner loop is the
  candidate snapshot held when the loop ends, \<open>candidate_q\<close> followed by
  \<open>candidate_T\<close>, and that pose is what the loop variables keep; it is not read from
  the live optimizer state. The snapshot is the pose as it is right after the optimizer
  step of the first iteration whose loss is the least of the run, provided that loss is
  below the initial bound \<open>10\<^sup>2\<^sup>0\<close>; when no loss is below the bound it is the pose
  the view started from. With \<open>S k\<close> the loop state after \<open>k\<close> iterations and
  \<open>L k\<close> the loss observed in iteration \<open>k\<close>:
\<close>

theorem refined_rendering_uses_best_candidate:
  fixes e :: env and a :: "'a args_scheme" and view :: view and bg :: tensor and w :: world
  defines "gt \<equiv> take 3 (original_image view)"
  defines "n \<equiv> nat (optim_test_pose_iter a)"
  defines "S \<equiv> \<lambda>k. refine_loop e view bg gt k (refine_init e (optim_test_pose_iter a) view w)"
  defines "L \<equiv> \<lambda>k. observed_loss e view bg gt (snd (S k))"
  defines "best \<equiv> candidate_q (fst (S n)) @ candidate_T (fst (S n))"
  shows "snd (refine_view e a rp gp bg (idx, view) w) = Some (view, best)
       \<and> events (fst (refine_view e a rp gp bg (idx, view) w)) =
           events (snd (S n)) @
             [Render view best,
              Save_image (render e view (gaussians (snd (S n))) bg best)
                (path_join [rp, image_name view @ ''.png'']),
              Save_image gt (path_join [gp, image_name view @ ''.png''])]
       \<and> ((\<forall>j<n. 100000000000000000000 \<le> L j) \<longrightarrow> best = live_pose (snd (S 0)))
       \<and> (\<forall>i<n. L i < 100000000000000000000 \<and> (\<forall>j<n. L i \<le> L j) \<and> (\<forall>j<i. L i < L j)
              \<longrightarrow> best = live_pose (snd (S (Suc i))))"
proof (intro conjI allI impI)
  show "snd (refine_view e a rp gp bg (idx, view) w) = Some (view, best)"
    by (simp add: refine_view_vars best_def S_def n_def gt_def)
  show "events (fst (refine_view e a rp gp bg (idx, view) w)) =
           events (snd (S n)) @
             [Render view best,
              Save_image (render e view (gaussians (snd (S n))) bg best)
                (path_join [rp, image_name view @ ''.png'']),
              Save_image gt (path_join [gp, image_name view @ ''.png''])]"
    unfolding refine_view_events Let_def best_def S_def n_def gt_def by simp
next
  let ?init = "refine_init e (optim_test_pose_iter a) view w"
  have m0: "current_min_loss (fst ?init) = 100000000000000000000"
    by (simp add: refine_init_def Let_def)
  have c0: "candidate_q (fst ?init) @ candidate_T (fst ?init) = live_pose (snd ?init)"
    by (simp add: refine_init_def Let_def live_pose_def)
  {
    assume "\<forall>j<n. 100000000000000000000 \<le> L j"
    then have "\<forall>j<n. current_min_loss (fst ?init)
             \<le> observed_loss e view bg gt (snd (refine_loop e view bg gt j ?init))"
      by (simp add: m0 L_def S_def)
    from candidate_never_improved [OF this] c0
    show "best = live_pose (snd (S 0))"
      by (simp add: best_def S_def refine_loop_0)
  }
  {
    fix i
    assume i: "i < n"
      and h: "L i < 100000000000000000000 \<and> (\<forall>j<n. L i \<le> L j) \<and> (\<forall>j<i. L i < L j)"
    from h have lt: "observed_loss e view bg gt (snd (refine_loop e view bg gt i ?init))
        < current_min_loss (fst ?init)"
      by (simp add: m0 L_def S_def)
    from h have le: "\<forall>j<n. observed_loss e view bg gt (snd (refine_loop e view bg gt i ?init))
        \<le> observed_loss e view bg gt (snd (refine_loop e view bg gt j ?init))"
      by (simp add: L_def S_def)
    from h have first: "\<forall>j<i. observed_loss e view bg gt (snd (refine_loop e view bg gt i ?init))
        < observed_loss e view bg gt (snd (refine_loop e view bg gt j ?init))"
      by (simp add: L_def S_def)
    from candidate_first_argmin [OF i lt le first]
    show "best = live_pose (snd (S (Suc i)))"
      by (simp add: best_def S_def live_pose_def)
  }
qed

theorem refined_rendering_uses_best_candidate_witness:
  "snd (refine_view sample_env (default_args\<lparr>optim_test_pose_iter := 3\<rparr>) ''r'' ''g'' [0, 0, 0]
          (0, sample_view) sample_world)
     = Some (sample_view, [3, - 1, - 1, - 1, 4, 5, 6])
   \<and> live_pose (snd (refine_loop sample_env sample_view [0, 0, 0]
         (take 3 (original_image sample_view)) 3 (refine_init sample_env 3 sample_view sample_world)))
     = [4, 0, 0, 0, 5, 6, 7]"
proof -
  define S where "S k = refine_loop sample_env sample_view [0, 0, 0]
       (take 3 (original_image sample_view)) k (refine_init sample_env 3 sample_view sample_world)" for k
  define L where "L k = observed_loss sample_env sample_view [0, 0, 0]
       (take 3 (original_image sample_view)) (snd (S k))" for k
  have n: "optim_test_pose_iter (default_args\<lparr>optim_test_pose_iter := 3\<rparr>) = 3" "nat 3 = 3"
    by simp_all
  note t = refined_rendering_uses_best_candidate [where e = sample_env
      and a = "default_args\<lparr>optim_test_pose_iter := 3\<rparr>" and view = sample_view
      and bg = "[0, 0, 0]" and w = sample_world and rp = "''r''" and gp = "''g''" and idx = 0,
      unfolded n, folded S_def, folded L_def]
  have L: "L 0 = 3" "L 1 = 1" "L 2 = 2"
    unfolding L_def S_def by code_simp+
  have h: "L 1 < 100000000000000000000 \<and> (\<forall>j<3. L 1 \<le> L j) \<and> (\<forall>j<1. L 1 < L j)"
    using L by (simp add: less_Suc_eq numeral_3_eq_3 numeral_2_eq_2)
  from t have q: "\<forall>i<3. L i < 100000000000000000000 \<and> (\<forall>j<3. L i \<le> L j) \<and> (\<forall>j<i. L i < L j)
      \<longrightarrow> candidate_q (fst (S 3)) @ candidate_T (fst (S 3)) = live_pose (snd (S (Suc i)))"
    by (elim conjE)
  have "(1::nat) < 3" by simp
  from q [rule_format, OF this h]
  have best: "candidate_q (fst (S 3)) @ candidate_T (fst (S 3)) = live_pose (snd (S (Suc 1)))" .
  have p2: "live_pose (snd (S (Suc 1))) = [3, - 1, - 1, - 1, 4, 5, 6]"
    unfolding S_def by code_simp
  have p3: "live_pose (snd (S 3)) = [4, 0, 0, 0, 5, 6, 7]"
    unfolding S_def by code_simp
  from t have "snd (refine_view sample_env (default_args\<lparr>optim_test_pose_iter := 3\<rparr>) ''r'' ''g''
          [0, 0, 0] (0, sample_view) sample_world)
     = Some (sample_view, candidate_q (fst (S 3)) @ candidate_T (fst (S 3)))"
    by (elim conjE)
  with best p2 p3 show ?thesis
    by (simp add: S_def)
qed

subsection \<open>The scene is frozen\<close>

text \<open>
  C3. A pose-refinement pass over any sequence of views leaves each of the six parameter
  tensors of the Gaussian model (positions, DC features, rest features, opacity, scaling,
  rotation) with the value and the gradient it had, and with gradient tracking off. The same
  holds after any number of iterations of the inner loop for any view in a world whose six
  tensors have been frozen: the optimizer has exactly the translation and the quaternion tensor
  registered, and \<^verbatim>\<open>loss.backward()\<close> gives the six tensors no gradient.
\<close>

theorem scene_frozen:
  "tensors (snd (render_set_optimize e a mp name it views bg w)) (Gaussian g)
     = (tensors w (Gaussian g))\<lparr>requires_grad := False\<rparr>
   \<and> (let w0 = w\<lparr>tensors := fold freeze [Xyz, Features_dc, Features_rest, Opacity, Scaling, Rotation]
                                  (tensors w)\<rparr>;
           stw = refine_loop e view bg gt k (refine_init e num_iter view w0)
       in tensors (snd stw) (Gaussian g) = (tensors w (Gaussian g))\<lparr>requires_grad := False\<rparr>
          \<and> map fst (param_groups (pose_optimizer (fst stw))) = [[Camera_tensor_T], [Camera_tensor_q]]
          \<and> backward e view (tensors (snd stw)) (Gaussian g) = tensors (snd stw) (Gaussian g))"
proof (rule conjI)
  let ?w0 = "w\<lparr>tensors := fold freeze [Xyz, Features_dc, Features_rest, Opacity, Scaling, Rotation]
                                  (tensors w)\<rparr>"
  let ?stw = "refine_loop e view bg gt k (refine_init e num_iter view ?w0)"
  have w0: "tensors ?w0 (Gaussian g) = (tensors w (Gaussian g))\<lparr>requires_grad := False\<rparr>"
    by (simp add: freeze_six)
  then have "\<not> requires_grad (tensors (snd (refine_init e num_iter view ?w0)) (Gaussian g))"
    by (simp add: refine_init_gaussian freeze_six)
  from refine_loop_frame [OF refine_init_pose_only this, of e view bg gt k]
  have po: "pose_only (fst ?stw)"
    and eq: "tensors (snd ?stw) (Gaussian g) = (tensors w (Gaussian g))\<lparr>requires_grad := False\<rparr>"
    by (simp_all add: refine_init_gaussian freeze_six)
  from eq have "\<not> requires_grad (tensors (snd ?stw) (Gaussian g))" by simp
  then have "backward e view (tensors (snd ?stw)) (Gaussian g) = tensors (snd ?stw) (Gaussian g)"
    by (rule backward_frozen)
  with po eq
  show "let w0 = ?w0; stw = refine_loop e view bg gt k (refine_init e num_iter view w0)
       in tensors (snd stw) (Gaussian g) = (tensors w (Gaussian g))\<lparr>requires_grad := False\<rparr>
          \<and> map fst (param_groups (pose_optimizer (fst stw))) = [[Camera_tensor_T], [Camera_tensor_q]]
          \<and> backward e view (tensors (snd stw)) (Gaussian g) = tensors (snd stw) (Gaussian g)"
    unfolding Let_def pose_only_def by blast
next
  let ?rp = "path_join [mp, name, ''ours_'' @ str_int it, ''renders'']"
  let ?gp = "path_join [mp, name, ''ours_'' @ str_int it, ''gt'']"
  let ?w1 = "emit [Makedirs ?rp, Makedirs ?gp] w"
  let ?w2 = "?w1\<lparr>tensors := fold freeze [Xyz, Features_dc, Features_rest, Opacity, Scaling, Rotation]
                                 (tensors ?w1)\<rparr>"
  have "tensors ?w2 (Gaussian g)
          = fold freeze [Xyz, Features_dc, Features_rest, Opacity, Scaling, Rotation] (tensors w) (Gaussian g)"
    by (simp add: emit_def del: fold_simps)
  then have w2: "tensors ?w2 (Gaussian g) = (tensors w (Gaussian g))\<lparr>requires_grad := False\<rparr>"
    by (simp only: fold_freeze)
  then have "\<not> requires_grad (tensors (fst (?w2, None :: (view \<times> tensor) option)) (Gaussian g))"
    by simp
  from fold_refine_view_gaussian [OF this, of e a ?rp ?gp bg "enumerate 0 views"] w2
  show "tensors (snd (render_set_optimize e a mp name it views bg w)) (Gaussian g)
     = (tensors w (Gaussian g))\<lparr>requires_grad := False\<rparr>"
    by (simp add: render_set_optimize_def Let_def fps_benchmark_tensors)
qed

theorem scene_frozen_witness:
  "tensors (snd (render_set_optimize sample_env (default_args\<lparr>optim_test_pose_iter := 3\<rparr>)
       ''out'' ''test'' 7 [sample_view, sample_view] [0, 0, 0] sample_world)) (Gaussian Xyz)
     = \<lparr>data = [1, 2], requires_grad = False, grad = None\<rparr>
   \<and> requires_grad (tensors sample_world (Gaussian Xyz))"
  using scene_frozen [of sample_env "default_args\<lparr>optim_test_pose_iter := 3\<rparr>"
      "''out''" "''test''" 7 "[sample_view, sample_view]" "[0, 0, 0]" sample_world Xyz]
  by (simp add: sample_world_def)

subsection \<open>The masked loss\<close>

text \<open>
  C4. In every refinement step the loss is \<^verbatim>\<open>l1_loss_mask\<close> of the rendering, the
  ground truth and a mask computed from the rendering with threshold \<open>0.0\<close>. The mask
  has the shape of the rendering and is one exactly where the rendered value is strictly
  greater than zero, and zero elsewhere, so a value rendered at exactly zero is masked.
  For the masked L1 loss of the specification this means that only the positions rendered
  above zero enter the sum of absolute differences and the count it is divided by:
  whatever the ground truth holds at a position rendered at zero, true black included, has
  no part in the loss.
\<close>

theorem masked_loss_threshold:
  "(let rendering = render e v (gaussians (snd stw)) bg (live_pose (snd stw));
        loss = l1_loss_mask e rendering gt (threshold_mask 0 rendering)
    in events (snd (refine_iteration e v bg gt i stw)) =
         events (snd stw) @
           [Render v (live_pose (snd stw)), Loss_eval loss, Backward, Optimizer_step,
            Set_postfix loss (if i = 0 then Some loss else initial_loss (fst stw)),
            Scheduler_step]
       \<and> current_min_loss (fst (refine_iteration e v bg gt i stw)) =
           (if loss < current_min_loss (fst stw) then loss else current_min_loss (fst stw)))
   \<and> length (threshold_mask 0 r) = length r
   \<and> (\<forall>c<length r. length (threshold_mask 0 r ! c) = length (r ! c)
        \<and> (\<forall>y<length (r ! c). length (threshold_mask 0 r ! c ! y) = length (r ! c ! y)
             \<and> (\<forall>x<length (r ! c ! y).
                    threshold_mask 0 r ! c ! y ! x = (if 0 < r ! c ! y ! x then 1 else 0))))
   \<and> masked_l1 r g (threshold_mask 0 r) =
       (let out = concat (concat r); g' = concat (concat g)
        in if length (filter (\<lambda>x. 0 < x) out) = 0 then None
           else Some (sum_list (map (\<lambda>(x, y). \<bar>x - y\<bar>) (filter (\<lambda>(x, y). 0 < x) (zip out g')))
                      / real (length (filter (\<lambda>x. 0 < x) out))))"
proof (intro conjI)
  show "let rendering = render e v (gaussians (snd stw)) bg (live_pose (snd stw));
        loss = l1_loss_mask e rendering gt (threshold_mask 0 rendering)
    in events (snd (refine_iteration e v bg gt i stw)) =
         events (snd stw) @
           [Render v (live_pose (snd stw)), Loss_eval loss, Backward, Optimizer_step,
            Set_postfix loss (if i = 0 then Some loss else initial_loss (fst stw)),
            Scheduler_step]
       \<and> current_min_loss (fst (refine_iteration e v bg gt i stw)) =
           (if loss < current_min_loss (fst stw) then loss else current_min_loss (fst stw))"
    unfolding refine_iteration_events refine_iteration_tracker
    by (simp add: observed_loss_def Let_def)
  show "length (threshold_mask 0 r) = length r"
    by (rule threshold_mask_shape)
  show "\<forall>c<length r. length (threshold_mask 0 r ! c) = length (r ! c)
        \<and> (\<forall>y<length (r ! c). length (threshold_mask 0 r ! c ! y) = length (r ! c ! y)
             \<and> (\<forall>x<length (r ! c ! y).
                    threshold_mask 0 r ! c ! y ! x = (if 0 < r ! c ! y ! x then 1 else 0)))"
    by (simp add: threshold_mask_shape threshold_mask_nth)
  show "masked_l1 r g (threshold_mask 0 r) =
       (let out = concat (concat r); g' = concat (concat g)
        in if length (filter (\<lambda>x. 0 < x) out) = 0 then None
           else Some (sum_list (map (\<lambda>(x, y). \<bar>x - y\<bar>) (filter (\<lambda>(x, y). 0 < x) (zip out g')))
                      / real (length (filter (\<lambda>x. 0 < x) out))))"
    by (rule masked_l1_threshold)
qed

theorem masked_loss_threshold_witness:
  "(0::nat) < length [[[2, 0], [- 1, 3::real]]] \<and> (1::nat) < length [2, 0::real]
   \<and> threshold_mask 0 [[[2, 0], [- 1, 3]]] ! 0 ! 0 ! 1 = 0
   \<and> threshold_mask 0 [[[2, 0], [- 1, 3]]] ! 0 ! 0 ! 0 = 1
   \<and> masked_l1 [[[2, 0], [- 1, 3]]] [[[1, 7], [7, 1]]] (threshold_mask 0 [[[2, 0], [- 1, 3]]])
       = Some (3 / 2)
   \<and> masked_l1 [[[2, 0], [- 1, 3]]] [[[1, 0], [0, 1]]] (threshold_mask 0 [[[2, 0], [- 1, 3]]])
       = Some (3 / 2)"
proof -
  note t = masked_loss_threshold [of sample_env sample_view
      "refine_init sample_env 3 sample_view sample_world" "[0, 0, 0]" "[[[1, 7], [7, 1]]]" 0
      "[[[2, 0], [- 1, 3]]]" "[[[1, 7], [7, 1]]]"]
  note t' = masked_loss_threshold [of sample_env sample_view
      "refine_init sample_env 3 sample_view sample_world" "[0, 0, 0]" "[[[1, 7], [7, 1]]]" 0
      "[[[2, 0], [- 1, 3]]]" "[[[1, 0], [0, 1]]]"]
  from t have m: "\<forall>c<length [[[2, 0], [- 1, 3::real]]].
       length (threshold_mask 0 [[[2, 0], [- 1, 3]]] ! c) = length ([[[2, 0], [- 1, 3::real]]] ! c)
        \<and> (\<forall>y<length ([[[2, 0], [- 1, 3::real]]] ! c).
              length (threshold_mask 0 [[[2, 0], [- 1, 3]]] ! c ! y)
                = length ([[[2, 0], [- 1, 3::real]]] ! c ! y)
             \<and> (\<forall>x<length ([[[2, 0], [- 1, 3::real]]] ! c ! y).
                    threshold_mask 0 [[[2, 0], [- 1, 3]]] ! c ! y ! x
                      = (if 0 < [[[2, 0], [- 1, 3::real]]] ! c ! y ! x then 1 else 0)))"
    by (elim conjE)
  have c: "(0::nat) < length [[[2, 0], [- 1, 3::real]]]" by simp
  have y: "(0::nat) < length ([[[2, 0], [- 1, 3::real]]] ! 0)" by simp
  have x1: "(1::nat) < length ([[[2, 0], [- 1, 3::real]]] ! 0 ! 0)" by simp
  have x0: "(0::nat) < length ([[[2, 0], [- 1, 3::real]]] ! 0 ! 0)" by simp
  note row = m [rule_format, OF c, THEN conjunct2, rule_format, OF y, THEN conjunct2, rule_format]
  from row [OF x1] have a: "threshold_mask 0 [[[2, 0], [- 1, 3]]] ! 0 ! 0 ! 1 = 0" by simp
  from row [OF x0] have b: "threshold_mask 0 [[[2, 0], [- 1, 3]]] ! 0 ! 0 ! 0 = 1" by simp
  from t have l: "masked_l1 [[[2, 0], [- 1, 3]]] [[[1, 7], [7, 1]]]
       (threshold_mask 0 [[[2, 0], [- 1, 3]]]) = Some (3 / 2)"
    by (elim conjE) (simp add: Let_def)
  from t' have l': "masked_l1 [[[2, 0], [- 1, 3]]] [[[1, 0], [0, 1]]]
       (threshold_mask 0 [[[2, 0], [- 1, 3]]]) = Some (3 / 2)"
    by (elim conjE) (simp add: Let_def)
  from a b l l' show ?thesis by simp
qed

subsection \<open>A fixed iteration budget\<close>

text \<open>
  C5. For every view the inner loop runs exactly \<open>optim_test_pose_iter\<close> times (no
  times when the number is not positive), and each iteration makes one render, one loss
  evaluation, one backward pass, one optimizer step, one progress update and one scheduler
  step, in this order; the refined view is then rendered once and two images are saved.
  The sequence of calls is the same for every renderer, loss and optimizer, hence for every
  sequence of loss values: nothing ends the loop early.
\<close>

theorem fixed_budget:
  "\<exists>new. events (fst (refine_view e a rp gp bg iv w)) = events w @ new
     \<and> map call_of new =
         concat (replicate (nat (optim_test_pose_iter a))
           [Render_call, Loss_call, Backward_call, Step_call, Postfix_call, Scheduler_call])
         @ [Render_call, Save_call, Save_call]"
proof -
  let ?n = "nat (optim_test_pose_iter a)"
  let ?init = "refine_init e (optim_test_pose_iter a) (snd iv) w"
  from refine_loop_events [of e "snd iv" bg "take 3 (original_image (snd iv))" ?n ?init]
  obtain new where new:
    "events (snd (refine_loop e (snd iv) bg (take 3 (original_image (snd iv))) ?n ?init)) = events w @ new"
    "map call_of new = concat (replicate ?n
          [Render_call, Loss_call, Backward_call, Step_call, Postfix_call, Scheduler_call])"
    by (auto simp: refine_init_events)
  obtain fin where fin: "events (fst (refine_view e a rp gp bg iv w)) = (events w @ new) @ fin"
    "map call_of fin = [Render_call, Save_call, Save_call]"
    unfolding refine_view_events new(1) Let_def by simp
  have "map call_of (new @ fin) = concat (replicate ?n
          [Render_call, Loss_call, Backward_call, Step_call, Postfix_call, Scheduler_call])
         @ [Render_call, Save_call, Save_call]"
    unfolding map_append new(2) fin(2) ..
  with fin(1) show ?thesis by (metis append_assoc)
qed

theorem fixed_budget_witness:
  "\<exists>new. events (fst (refine_view sample_env (default_args\<lparr>optim_test_pose_iter := 3\<rparr>)
                        ''r'' ''g'' [0, 0, 0] (0, sample_view) sample_world)) = new
     \<and> map call_of new =
         [Render_call, Loss_call, Backward_call, Step_call, Postfix_call, Scheduler_call,
          Render_call, Loss_call, Backward_call, Step_call, Postfix_call, Scheduler_call,
          Render_call, Loss_call, Backward_call, Step_call, Postfix_call, Scheduler_call,
          Render_call, Save_call, Save_call]"
  using fixed_budget [of sample_env "default_args\<lparr>optim_test_pose_iter := 3\<rparr>"
      "''r''" "''g''" "[0, 0, 0]" "(0, sample_view)" sample_world]
  by (simp add: sample_world_def numeral_3_eq_3)

subsection \<open>The FPS benchmark\<close>

text \<open>
  C6. With its loop variables bound, the benchmark makes 1000 renders of the same view at
  the same pose and records for each the difference of the clock readings around it. The
  1000 durations are sorted in ascending order; the 100 lowest and the 100 highest are
  dropped, which leaves 800; the result, printed and appended to the log, is one divided
  by the mean of those 800 (a mean of zero raises \<^verbatim>\<open>ZeroDivisionError\<close>). When every
  render takes a positive time the mean and the result are strictly positive, so the
  benchmark ends without error.
\<close>

theorem fps_benchmark_trimmed:
  fixes e :: env and w :: world
  defines "ds \<equiv> map (\<lambda>i. perf_counter e (clock w + 2 * i + 1) - perf_counter e (clock w + 2 * i))
                     [0..<1000]"
  defines "T \<equiv> drop 100 (take 900 (sort ds))"
  shows "fps_benchmark e mp (Some (v, p)) w =
           (if sum_list T / 800 = 0
            then (Some ZeroDivisionError,
                  w\<lparr>events := events w @ [Print ''>>> Calculate FPS: '']
                                 @ replicate 1000 (Render v p),
                    clock := clock w + 2000\<rparr>)
            else (None,
                  w\<lparr>events := events w @ [Print ''>>> Calculate FPS: '']
                                 @ replicate 1000 (Render v p)
                                 @ [Print ''>>> FPS = '',
                                    Json_dump (1 / (sum_list T / 800)) (mp @ ''/total_fps.json'')],
                    clock := clock w + 2000\<rparr>))
       \<and> length ds = 1000 \<and> length T = 800
       \<and> sort ds = take 100 (sort ds) @ T @ drop 900 (sort ds)
       \<and> length (take 100 (sort ds)) = 100 \<and> length (drop 900 (sort ds)) = 100
       \<and> sorted (sort ds) \<and> mset (sort ds) = mset ds
       \<and> ((\<forall>i<1000. perf_counter e (clock w + 2 * i) < perf_counter e (clock w + 2 * i + 1))
            \<longrightarrow> 0 < sum_list T / 800 \<and> 0 < 1 / (sum_list T / 800))"
proof -
  have len: "length ds = 1000" by (simp add: ds_def)
  then have lenT: "length T = 800" by (simp add: T_def)
  have fps: "trimmed_fps ds =
      (if sum_list T / 800 = 0 then Inl ZeroDivisionError else Inr (1 / (sum_list T / 800)))"
    using lenT by (simp add: trimmed_fps_def Let_def T_def)
  have run: "fps_benchmark e mp (Some (v, p)) w =
           (if sum_list T / 800 = 0
            then (Some ZeroDivisionError,
                  w\<lparr>events := events w @ [Print ''>>> Calculate FPS: '']
                                 @ replicate 1000 (Render v p),
                    clock := clock w + 2000\<rparr>)
            else (None,
                  w\<lparr>events := events w @ [Print ''>>> Calculate FPS: '']
                                 @ replicate 1000 (Render v p)
                                 @ [Print ''>>> FPS = '',
                                    Json_dump (1 / (sum_list T / 800)) (mp @ ''/total_fps.json'')],
                    clock := clock w + 2000\<rparr>))"
    using fps unfolding fps_benchmark_def Let_def timed_render_fold ds_def
    by (simp add: emit_def)
  have pos: "0 < sum_list T / 800 \<and> 0 < 1 / (sum_list T / 800)"
    if "\<forall>i<1000. perf_counter e (clock w + 2 * i) < perf_counter e (clock w + 2 * i + 1)"
  proof -
    from that have "\<forall>d\<in>set ds. 0 < d" by (auto simp: ds_def)
    from trimmed_fps_positive [OF len this] have "0 < 1 / (sum_list T / 800)"
      by (simp add: T_def)
    then show ?thesis by simp
  qed
  show ?thesis
    using run len lenT pos trimmed_split [of ds] by (simp add: T_def)
qed

theorem fps_benchmark_trimmed_witness:
  "perf_counter sample_env (clock sample_world + 2 * 999)
     < perf_counter sample_env (clock sample_world + 2 * 999 + 1)
   \<and> fps_benchmark sample_env ''out'' (Some (sample_view, [4, 0, 0, 0, 5, 6, 7])) sample_world =
       (None, sample_world\<lparr>events := [Print ''>>> Calculate FPS: '']
                               @ replicate 1000 (Render sample_view [4, 0, 0, 0, 5, 6, 7])
                               @ [Print ''>>> FPS = '', Json_dump 1 ''out/total_fps.json''],
                            clock := 2000\<rparr>)"
proof -
  have pos: "\<forall>i<1000. perf_counter sample_env (clock sample_world + 2 * i)
               < perf_counter sample_env (clock sample_world + 2 * i + 1)"
    by (simp add: sample_env_def)
  have ds: "map (\<lambda>i. perf_counter sample_env (clock sample_world + 2 * i + 1)
                     - perf_counter sample_env (clock sample_world + 2 * i)) [0..<1000]
            = replicate 1000 1"
    by (simp add: sample_env_def map_replicate_const)
  have srt: "sort (replicate 1000 (1::real)) = replicate 1000 1"
    by (rule sorted_sort_id) (simp add: sorted_replicate)
  have mean: "1 / (sum_list (drop 100 (take 900 (sort (replicate 1000 (1::real))))) / 800) = 1"
    unfolding srt by (simp add: sum_list_replicate)
  note t = fps_benchmark_trimmed [of sample_env "''out''" sample_view "[4, 0, 0, 0, 5, 6, 7]"
      sample_world, unfolded ds mean]
  from t pos have "0 < sum_list (drop 100 (take 900 (sort (replicate 1000 (1::real))))) / 800"
    by (elim conjE) blast
  then have nz: "sum_list (drop 100 (take 900 (sort (replicate 1000 (1::real))))) / 800 \<noteq> 0"
    by simp
  from t have "fps_benchmark sample_env ''out'' (Some (sample_view, [4, 0, 0, 0, 5, 6, 7])) sample_world =
       (None, sample_world\<lparr>events := events sample_world @ [Print ''>>> Calculate FPS: '']
                               @ replicate 1000 (Render sample_view [4, 0, 0, 0, 5, 6, 7])
                               @ [Print ''>>> FPS = '', Json_dump 1 (''out'' @ ''/total_fps.json'')],
                            clock := clock sample_world + 2000\<rparr>)"
    by (elim conjE) (simp only: nz if_False)
  moreover have "perf_counter sample_env (clock sample_world + 2 * 999)
     < perf_counter sample_env (clock sample_world + 2 * 999 + 1)"
    by (simp add: sample_env_def)
  ultimately show ?thesis
    by (simp add: sample_world_def)
qed

subsection \<open>Derivation chain of the truncation parameters\<close>

text \<open>
  C7. In bounded mesh extraction the three truncation parameters are derived in the order
  depth truncation, voxel size, signed-distance truncation. A negative flag is unset:
  then \<open>depth_trunc = 2 \<times> radius\<close>, \<open>voxel_size = depth_trunc / mesh_res\<close> and
  \<open>sdf_trunc = 5 \<times> voxel_size\<close>, each computed from the values chosen before it.
  A non-negative flag replaces the derivation of its own parameter only; the parameters
  after it are still derived, from the overriding value. With radius 2 and resolution 1024
  and no flag set the result is \<open>depth_trunc = 4\<close>, \<open>voxel_size = 4 / 1024\<close>,
  \<open>sdf_trunc = 5 \<times> (4 / 1024)\<close>.
\<close>

theorem bounded_mesh_params_chain:
  assumes res: "mesh_res a \<noteq> 0"
  shows "(\<exists>vs st dt. bounded_mesh_params radius a = Inr (vs, st, dt)
      \<and> dt = (if depth_trunc a < 0 then 2 * radius else depth_trunc a)
      \<and> vs = (if voxel_size a < 0 then dt / real_of_int (mesh_res a) else voxel_size a)
      \<and> st = (if sdf_trunc a < 0 then 5 * vs else sdf_trunc a))
    \<and> (depth_trunc a < 0 \<and> voxel_size a < 0 \<and> sdf_trunc a < 0 \<longrightarrow>
      bounded_mesh_params radius a =
        Inr (2 * radius / real_of_int (mesh_res a), 5 * (2 * radius / real_of_int (mesh_res a)),
             2 * radius))
    \<and> (0 \<le> depth_trunc a \<and> voxel_size a < 0 \<and> sdf_trunc a < 0 \<longrightarrow>
      bounded_mesh_params radius a =
        Inr (depth_trunc a / real_of_int (mesh_res a),
             5 * (depth_trunc a / real_of_int (mesh_res a)), depth_trunc a))
    \<and> (depth_trunc a < 0 \<and> 0 \<le> voxel_size a \<and> sdf_trunc a < 0 \<longrightarrow>
      bounded_mesh_params radius a = Inr (voxel_size a, 5 * voxel_size a, 2 * radius))
    \<and> (depth_trunc a < 0 \<and> voxel_size a < 0 \<and> 0 \<le> sdf_trunc a \<longrightarrow>
      bounded_mesh_params radius a =
        Inr (2 * radius / real_of_int (mesh_res a), sdf_trunc a, 2 * radius))
    \<and> (radius = 2 \<and> mesh_res a = 1024 \<and> depth_trunc a < 0 \<and> voxel_size a < 0
         \<and> sdf_trunc a < 0 \<longrightarrow>
      bounded_mesh_params radius a = Inr (4 / 1024, 5 * (4 / 1024), 4))"
  using res by (auto simp: bounded_mesh_params_def Let_def)

theorem bounded_mesh_params_chain_witness:
  "mesh_res default_args \<noteq> 0
   \<and> depth_trunc default_args < 0 \<and> voxel_size default_args < 0 \<and> sdf_trunc default_args < 0
   \<and> bounded_mesh_params 2 default_args = Inr (4 / 1024, 5 * (4 / 1024), 4)
   \<and> bounded_mesh_params 2 (default_args\<lparr>depth_trunc := 8\<rparr>) = Inr (8 / 1024, 5 * (8 / 1024), 8)
   \<and> bounded_mesh_params 2 (default_args\<lparr>voxel_size := 1\<rparr>) = Inr (1, 5, 4)
   \<and> bounded_mesh_params 2 (default_args\<lparr>sdf_trunc := 3\<rparr>) = Inr (4 / 1024, 3, 4)"
  using bounded_mesh_params_chain [of default_args 2]
    bounded_mesh_params_chain [of "default_args\<lparr>depth_trunc := 8\<rparr>" 2]
    bounded_mesh_params_chain [of "default_args\<lparr>voxel_size := 1\<rparr>" 2]
    bounded_mesh_params_chain [of "default_args\<lparr>sdf_trunc := 3\<rparr>" 2]
  by (simp add: default_args_def)

subsection \<open>An empty test split\<close>

text \<open>
  C8. In the surface branch with \<^verbatim>\<open>args.eval\<close> set and no test cameras, the export of
  the test split does nothing: it runs no reconstruction, exports no image, prints
  nothing and raises nothing, and \<^verbatim>\<open>render_sets\<close> goes on with the statement after
  it, the trajectory block, in an unchanged world. When no trajectory is requested
  \<^verbatim>\<open>render_sets\<close> returns normally having done nothing. (When one is requested in the
  evaluation path, the trajectory block raises on the unbound \<^verbatim>\<open>optimized_pose\<close>,
  whatever the test split holds.)
\<close>

theorem empty_test_split_noop:
  assumes "surf a" and "eval a" and "getTestCameras scn = []"
  shows "export_test_images dataset a scn test_dir w = w
       \<and> render_sets e dataset it st sk a scn w =
           (fst (render_videos e a scn (None, w)), snd (snd (render_videos e a scn (None, w))))
       \<and> render_sets e dataset it st sk a scn w =
           (if render_path a
            then (Some (UnboundLocalError ''optimized_pose''),
                  emit [Print ''render videos ...'',
                        Makedirs (path_join [model_path a, ''traj'', ''ours_'' @ str_int (loaded_iter scn)])] w)
            else (None, w))"
  using assms
  by (simp add: export_test_images_def render_sets_def and_then_def render_videos_def Let_def)

theorem empty_test_split_noop_witness:
  "surf (default_args\<lparr>surf := True, eval := True\<rparr>)
   \<and> eval (default_args\<lparr>surf := True, eval := True\<rparr>)
   \<and> getTestCameras sample_scene = []
   \<and> render_sets sample_env (default_args\<lparr>surf := True, eval := True\<rparr>) (- 1) False False
        (default_args\<lparr>surf := True, eval := True\<rparr>) sample_scene sample_world
      = (None, sample_world)"
proof -
  have s: "surf (default_args\<lparr>surf := True, eval := True\<rparr>)" by simp
  have e: "eval (default_args\<lparr>surf := True, eval := True\<rparr>)" by simp
  have t: "getTestCameras sample_scene = []" by (simp add: sample_scene_def)
  from empty_test_split_noop [OF s e t, of "default_args\<lparr>surf := True, eval := True\<rparr>"
      "''out/test/ours_7''" sample_world sample_env "- 1" False False,
      THEN conjunct2, THEN conjunct2]
  have "render_sets sample_env (default_args\<lparr>surf := True, eval := True\<rparr>) (- 1) False False
        (default_args\<lparr>surf := True, eval := True\<rparr>) sample_scene sample_world
      = (None, sample_world)"
    by (simp add: default_args_def)
  with s e t show ?thesis by simp
qed

subsection \<open>The benchmark reads the variables of the last view\<close>

text \<open>
  C9. With the benchmark flag set and no views, \<^verbatim>\<open>render_set_optimize\<close> raises
  \<^verbatim>\<open>UnboundLocalError\<close> for \<^verbatim>\<open>view\<close> at the first timed render: it has created
  the two directories, frozen the scene and printed the banner, and it writes no
  measurement. With at least one view, the benchmark runs on the loop variables the last
  view left: its 1000 renders are of the last view at the pose refined for it, and the
  only error it can end in is a division by zero.
\<close>

theorem benchmark_loop_variables:
  "(test_fps a \<longrightarrow>
      render_set_optimize e a mp name it [] bg w =
        (Some (UnboundLocalError ''view''),
         w\<lparr>tensors := fold freeze [Xyz, Features_dc, Features_rest, Opacity, Scaling, Rotation] (tensors w),
           events := events w @
             [Makedirs (path_join [mp, name, ''ours_'' @ str_int it, ''renders'']),
              Makedirs (path_join [mp, name, ''ours_'' @ str_int it, ''gt'']),
              Print ''>>> Calculate FPS: ''],
           clock := clock w + 1\<rparr>))
   \<and> (test_fps a \<and> views \<noteq> [] \<longrightarrow>
      (\<exists>w' p. refine_view e a (path_join [mp, name, ''ours_'' @ str_int it, ''renders''])
                 (path_join [mp, name, ''ours_'' @ str_int it, ''gt'']) bg
                 (length views - 1, last views)
                 (fst (fold (\<lambda>iv wl. refine_view e a
                               (path_join [mp, name, ''ours_'' @ str_int it, ''renders''])
                               (path_join [mp, name, ''ours_'' @ str_int it, ''gt'']) bg iv (fst wl))
                         (enumerate 0 (butlast views))
                         ((emit [Makedirs (path_join [mp, name, ''ours_'' @ str_int it, ''renders'']),
                                 Makedirs (path_join [mp, name, ''ours_'' @ str_int it, ''gt''])] w)
                            \<lparr>tensors := fold freeze [Xyz, Features_dc, Features_rest, Opacity, Scaling, Rotation] (tensors w)\<rparr>,
                          None)))
               = (w', Some (last views, p))
         \<and> render_set_optimize e a mp name it views bg w = fps_benchmark e mp (Some (last views, p)) w'
         \<and> fst (render_set_optimize e a mp name it views bg w) \<in> {None, Some ZeroDivisionError}
         \<and> (\<exists>fin. events (snd (render_set_optimize e a mp name it views bg w)) =
               events w' @ [Print ''>>> Calculate FPS: ''] @ replicate 1000 (Render (last views) p) @ fin)))"
proof (intro conjI impI)
  assume "test_fps a"
  then show "render_set_optimize e a mp name it [] bg w =
        (Some (UnboundLocalError ''view''),
         w\<lparr>tensors := fold freeze [Xyz, Features_dc, Features_rest, Opacity, Scaling, Rotation] (tensors w),
           events := events w @
             [Makedirs (path_join [mp, name, ''ours_'' @ str_int it, ''renders'']),
              Makedirs (path_join [mp, name, ''ours_'' @ str_int it, ''gt'']),
              Print ''>>> Calculate FPS: ''],
           clock := clock w + 1\<rparr>)"
    by (simp add: render_set_optimize_def Let_def fps_benchmark_unbound emit_def del: fold_simps)
next
  let ?rp = "path_join [mp, name, ''ours_'' @ str_int it, ''renders'']"
  let ?gp = "path_join [mp, name, ''ours_'' @ str_int it, ''gt'']"
  let ?w2 = "(emit [Makedirs ?rp, Makedirs ?gp] w)
                \<lparr>tensors := fold freeze [Xyz, Features_dc, Features_rest, Opacity, Scaling, Rotation] (tensors w)\<rparr>"
  let ?prev = "fst (fold (\<lambda>iv wl. refine_view e a ?rp ?gp bg iv (fst wl)) (enumerate 0 (butlast views))
                      (?w2, None))"
  assume h: "test_fps a \<and> views \<noteq> []"
  obtain w' vp where r: "refine_view e a ?rp ?gp bg (length views - 1, last views) ?prev = (w', vp)"
    by (cases "refine_view e a ?rp ?gp bg (length views - 1, last views) ?prev")
  from refine_view_vars [of e a ?rp ?gp bg "(length views - 1, last views)" ?prev] r
  obtain p where p: "vp = Some (last views, p)" by simp
  have w2: "(emit [Makedirs ?rp, Makedirs ?gp] w)
              \<lparr>tensors := fold freeze [Xyz, Features_dc, Features_rest, Opacity, Scaling, Rotation]
                            (tensors (emit [Makedirs ?rp, Makedirs ?gp] w))\<rparr> = ?w2"
    by (simp add: emit_def del: fold_simps)
  have run: "render_set_optimize e a mp name it views bg w = fps_benchmark e mp (Some (last views, p)) w'"
    unfolding render_set_optimize_def Let_def w2 views_loop_last [OF conjunct2 [OF h]] r p
    using h by (simp only: if_True fst_conv snd_conv)
  show "\<exists>w' p. refine_view e a ?rp ?gp bg (length views - 1, last views) ?prev = (w', Some (last views, p))
         \<and> render_set_optimize e a mp name it views bg w = fps_benchmark e mp (Some (last views, p)) w'
         \<and> fst (render_set_optimize e a mp name it views bg w) \<in> {None, Some ZeroDivisionError}
         \<and> (\<exists>fin. events (snd (render_set_optimize e a mp name it views bg w)) =
               events w' @ [Print ''>>> Calculate FPS: ''] @ replicate 1000 (Render (last views) p) @ fin)"
    using r p run fps_benchmark_bound [of e mp "(last views, p)" w']
      fps_benchmark_events [of e mp "last views" p w']
    by (intro exI [of _ w'] exI [of _ p]) simp
qed

theorem benchmark_loop_variables_witness:
  "test_fps (default_args\<lparr>test_fps := True\<rparr>)
   \<and> render_set_optimize sample_env (default_args\<lparr>test_fps := True\<rparr>) ''out'' ''test'' 7 []
        [0, 0, 0] sample_world =
        (Some (UnboundLocalError ''view''),
         sample_world\<lparr>tensors := (\<lambda>t. case t of
                          Gaussian g \<Rightarrow> \<lparr>data = [1, 2], requires_grad = False, grad = None\<rparr>
                        | _ \<Rightarrow> \<lparr>data = [1, 2], requires_grad = True, grad = None\<rparr>),
           events := [Makedirs ''out/test/ours_7/renders'', Makedirs ''out/test/ours_7/gt'',
                      Print ''>>> Calculate FPS: ''],
           clock := 1\<rparr>)
   \<and> [sample_view] \<noteq> []
   \<and> fst (render_set_optimize sample_env (default_args\<lparr>test_fps := True\<rparr>) ''out'' ''test'' 7
        [sample_view] [0, 0, 0] sample_world) \<in> {None, Some ZeroDivisionError}"
proof -
  note t = benchmark_loop_variables [of "default_args\<lparr>test_fps := True\<rparr>" sample_env
      "''out''" "''test''" 7 "[0, 0, 0]" sample_world "[sample_view]"]
  have f: "test_fps (default_args\<lparr>test_fps := True\<rparr>)" by simp
  have p: "path_join [''out'', ''test'', ''ours_'' @ str_int 7, ''renders''] = ''out/test/ours_7/renders''"
    "path_join [''out'', ''test'', ''ours_'' @ str_int 7, ''gt''] = ''out/test/ours_7/gt''"
    by code_simp+
  have fr: "fold freeze [Xyz, Features_dc, Features_rest, Opacity, Scaling, Rotation]
              (tensors sample_world)
            = (\<lambda>t. case t of
                  Gaussian g \<Rightarrow> \<lparr>data = [1, 2], requires_grad = False, grad = None\<rparr>
                | _ \<Rightarrow> \<lparr>data = [1, 2], requires_grad = True, grad = None\<rparr>)"
  proof
    fix t show "fold freeze [Xyz, Features_dc, Features_rest, Opacity, Scaling, Rotation]
              (tensors sample_world) t
            = (case t of
                  Gaussian g \<Rightarrow> \<lparr>data = [1, 2], requires_grad = False, grad = None\<rparr>
                | _ \<Rightarrow> \<lparr>data = [1, 2], requires_grad = True, grad = None\<rparr>)"
    proof (cases t)
      case (Gaussian g)
      then show ?thesis by (cases g) (simp_all add: freeze_def sample_world_def)
    qed (simp_all add: freeze_def sample_world_def)
  qed
  from t f have 1: "render_set_optimize sample_env (default_args\<lparr>test_fps := True\<rparr>) ''out''
        ''test'' 7 [] [0, 0, 0] sample_world =
        (Some (UnboundLocalError ''view''),
         sample_world\<lparr>tensors := (\<lambda>t. case t of
                          Gaussian g \<Rightarrow> \<lparr>data = [1, 2], requires_grad = False, grad = None\<rparr>
                        | _ \<Rightarrow> \<lparr>data = [1, 2], requires_grad = True, grad = None\<rparr>),
           events := [Makedirs ''out/test/ours_7/renders'', Makedirs ''out/test/ours_7/gt'',
                      Print ''>>> Calculate FPS: ''],
           clock := 1\<rparr>)"
    unfolding p fr by (simp add: sample_world_def)
  from t f have 2: "fst (render_set_optimize sample_env (default_args\<lparr>test_fps := True\<rparr>) ''out''
        ''test'' 7 [sample_view] [0, 0, 0] sample_world) \<in> {None, Some ZeroDivisionError}"
    by (elim conjE) auto
  from f 1 2 show ?thesis by simp
qed

subsection \<open>Ground truth in the plain render\<close>

text \<open>
  C10. \<^verbatim>\<open>render_set\<close> saves for every view, in order, the rendering at the stored pose
  of the view under \<^verbatim>\<open>renders\<close>, and after it the ground-truth image under
  \<^verbatim>\<open>gt\<close> unless the name of the split is \<^verbatim>\<open>interp\<close>. For the interpolated
  trajectory the saved images are exactly the renderings, one per view, and no
  ground-truth image is written.
\<close>

theorem render_set_ground_truth:
  "(name = ''interp'' \<longrightarrow>
      saved_images (events (render_set e mp name it views bg w)) =
        saved_images (events w) @
        map (\<lambda>iv. (render e (snd iv) (gaussians w) bg
                      (get_tensor_from_camera e (transpose (world_view_transform (snd iv)))),
                    path_join [path_join [mp, name, ''ours_'' @ str_int it, ''renders''],
                               format_05d (fst iv) @ ''.png'']))
          (enumerate 0 views))
   \<and> (name \<noteq> ''interp'' \<longrightarrow>
      saved_images (events (render_set e mp name it views bg w)) =
        saved_images (events w) @
        concat (map (\<lambda>iv. [(render e (snd iv) (gaussians w) bg
                      (get_tensor_from_camera e (transpose (world_view_transform (snd iv)))),
                    path_join [path_join [mp, name, ''ours_'' @ str_int it, ''renders''],
                               format_05d (fst iv) @ ''.png'']),
                   (take 3 (original_image (snd iv)),
                    path_join [path_join [mp, name, ''ours_'' @ str_int it, ''gt''],
                               format_05d (fst iv) @ ''.png''])])
          (enumerate 0 views)))"
proof -
  have 1: "name = ''interp'' \<Longrightarrow> concat (map (render_set_files e name rp gp bg w) ivs)
      = map (\<lambda>iv. (render e (snd iv) (gaussians w) bg
                      (get_tensor_from_camera e (transpose (world_view_transform (snd iv)))),
                    path_join [rp, format_05d (fst iv) @ ''.png''])) ivs" for rp gp ivs
    by (induction ivs) (simp_all add: render_set_files_def)
  have 2: "name \<noteq> ''interp'' \<Longrightarrow> render_set_files e name rp gp bg w
      = (\<lambda>iv. [(render e (snd iv) (gaussians w) bg
                      (get_tensor_from_camera e (transpose (world_view_transform (snd iv)))),
                    path_join [rp, format_05d (fst iv) @ ''.png'']),
                   (take 3 (original_image (snd iv)),
                    path_join [gp, format_05d (fst iv) @ ''.png''])])" for rp gp
    by (rule ext) (simp add: render_set_files_def)
  show ?thesis
  proof (intro conjI impI)
    assume n: "name = ''interp''"
    show "saved_images (events (render_set e mp name it views bg w)) =
        saved_images (events w) @
        map (\<lambda>iv. (render e (snd iv) (gaussians w) bg
                      (get_tensor_from_camera e (transpose (world_view_transform (snd iv)))),
                    path_join [path_join [mp, name, ''ours_'' @ str_int it, ''renders''],
                               format_05d (fst iv) @ ''.png'']))
          (enumerate 0 views)"
      unfolding render_set_saves 1 [OF n] ..
  next
    assume n: "name \<noteq> ''interp''"
    show "saved_images (events (render_set e mp name it views bg w)) =
        saved_images (events w) @
        concat (map (\<lambda>iv. [(render e (snd iv) (gaussians w) bg
                      (get_tensor_from_camera e (transpose (world_view_transform (snd iv)))),
                    path_join [path_join [mp, name, ''ours_'' @ str_int it, ''renders''],
                               format_05d (fst iv) @ ''.png'']),
                   (take 3 (original_image (snd iv)),
                    path_join [path_join [mp, name, ''ours_'' @ str_int it, ''gt''],
                               format_05d (fst iv) @ ''.png''])])
          (enumerate 0 views))"
      unfolding render_set_saves 2 [OF n] ..
  qed
qed

theorem render_set_ground_truth_witness:
  "saved_images (events (render_set sample_env ''out'' ''interp'' 7 [sample_view, sample_view]
       [0, 0, 0] sample_world)) =
     [([[[4]], [[0]], [[0]]], ''out/interp/ours_7/renders/00000.png''),
      ([[[4]], [[0]], [[0]]], ''out/interp/ours_7/renders/00001.png'')]
   \<and> ''train'' \<noteq> ''interp''
   \<and> saved_images (events (render_set sample_env ''out'' ''train'' 7 [sample_view]
       [0, 0, 0] sample_world)) =
     [([[[4]], [[0]], [[0]]], ''out/train/ours_7/renders/00000.png''),
      ([[[1]], [[9]], [[0]]], ''out/train/ours_7/gt/00000.png'')]"
proof -
  have a: "saved_images (events sample_world) @
        map (\<lambda>iv. (render sample_env (snd iv) (gaussians sample_world) [0, 0, 0]
                      (get_tensor_from_camera sample_env (transpose (world_view_transform (snd iv)))),
                    path_join [path_join [''out'', ''interp'', ''ours_'' @ str_int 7, ''renders''],
                               format_05d (fst iv) @ ''.png'']))
          (enumerate 0 [sample_view, sample_view])
       = [([[[4]], [[0]], [[0]]], ''out/interp/ours_7/renders/00000.png''),
          ([[[4]], [[0]], [[0]]], ''out/interp/ours_7/renders/00001.png'')]"
    by code_simp
  have b: "saved_images (events sample_world) @
        concat (map (\<lambda>iv. [(render sample_env (snd iv) (gaussians sample_world) [0, 0, 0]
                      (get_tensor_from_camera sample_env (transpose (world_view_transform (snd iv)))),
                    path_join [path_join [''out'', ''train'', ''ours_'' @ str_int 7, ''renders''],
                               format_05d (fst iv) @ ''.png'']),
                   (take 3 (original_image (snd iv)),
                    path_join [path_join [''out'', ''train'', ''ours_'' @ str_int 7, ''gt''],
                               format_05d (fst iv) @ ''.png''])])
          (enumerate 0 [sample_view]))
       = [([[[4]], [[0]], [[0]]], ''out/train/ours_7/renders/00000.png''),
          ([[[1]], [[9]], [[0]]], ''out/train/ours_7/gt/00000.png'')]"
    by code_simp
  have n: "''train'' \<noteq> ''interp''" by simp
  from render_set_ground_truth [of "''interp''" sample_env "''out''" 7 "[sample_view, sample_view]"
      "[0, 0, 0]" sample_world]
  have 1: "saved_images (events (render_set sample_env ''out'' ''interp'' 7 [sample_view, sample_view]
       [0, 0, 0] sample_world)) =
     [([[[4]], [[0]], [[0]]], ''out/interp/ours_7/renders/00000.png''),
      ([[[4]], [[0]], [[0]]], ''out/interp/ours_7/renders/00001.png'')]"
    unfolding a by (elim conjE) (simp only: simp_thms)
  from render_set_ground_truth [of "''train''" sample_env "''out''" 7 "[sample_view]"
      "[0, 0, 0]" sample_world] n
  have 2: "saved_images (events (render_set sample_env ''out'' ''train'' 7 [sample_view]
       [0, 0, 0] sample_world)) =
     [([[[4]], [[0]], [[0]]], ''out/train/ours_7/renders/00000.png''),
      ([[[1]], [[9]], [[0]]], ''out/train/ours_7/gt/00000.png'')]"
    unfolding b by (elim conjE) (simp only: simp_thms)
  from 1 n 2 show ?thesis by (intro conjI)
qed

end
